theory Spec2Isabelle
  imports Complex_Main
begin

section \<open>SafeHer backend: alert dispatch, lifecycle, reputation and expiry\<close>

text \<open>
  A shallow embedding of the alert controller (create, accept, decline, cancel, resolve,
  feedback, live location), of the \<open>Alert\<close> and \<open>Volunteer\<close> model methods, of the
  SMS notification service and of the cleanup job of \<open>server.js\<close>.

  Conventions.
  \<^item> A MongoDB collection is the list of its documents in natural order; \<open>findById\<close> and
    \<open>findOne\<close> return the first match.
  \<^item> Handlers run one at a time, each to its end. A document that a handler saves is the
    one it has read from the store in the same run, so the version condition that
    Mongoose puts on \<open>save()\<close> holds and the write of the modified paths leaves the
    handler's copy in the store (after the \<open>pre('save')\<close> hook has stamped \<open>updatedAt\<close>):
    \<open>save\<close> replaces the stored document that has the same \<open>_id\<close>. Overlapping handlers,
    where \<open>save()\<close> can refuse a copy that has gone stale, are outside the model.
  \<^item> A \<open>Date\<close> is its number of milliseconds since the epoch; \<open>new Date()\<close> and
    \<open>Date.now()\<close> read the clock value \<open>now\<close> handed to the handler.
  \<^item> A JavaScript number that may be fractional is a real number; request bodies carry
    JSON numbers (not numeric strings). An optional field is an \<open>option\<close>.
  \<^item> Every handler returns the HTTP response it sends together with the new store.
    Socket.IO emissions (\<open>req.io.to(...).emit(...)\<close>) do not touch documents and are
    left out, as are failures of the database driver itself.
\<close>

subsection \<open>Data model\<close>

type_synonym oid = nat
type_synonym date = int
type_synonym code_units = "nat list"

datatype alert_status = pending | active | responding | resolved | cancelled | expired
datatype alert_priority = low | medium | high | critical
datatype alert_type = sos | medical | accident | harassment | other
datatype entry_status = notified | accepted | declined | no_response
datatype contact_method = sms | call | push | email
datatype contact_status = sent | delivered | failed | contact_pending
datatype volunteer_status = v_pending | v_active | v_inactive | v_suspended
datatype role = role_user | role_volunteer | role_admin

text \<open>\<open>models/Volunteer.js\<close>: the fields the modelled operations read or write.
  \<open>avgResponseTime\<close> is \<open>None\<close> when the JavaScript value is \<open>NaN\<close>; an icon is kept as
  its Unicode code point. \<open>v_currentLocation\<close> is \<open>currentLocation.coordinates\<close> as
  \<open>(longitude, latitude)\<close>, and \<open>None\<close> for a document on which
  \<open>currentLocation?.coordinates\<close> is absent. No writer of the repository produces such a
  document: the schema gives the coordinates the default \<open>[0, 0]\<close> (see \<open>registerVolunteer\<close>
  below) and the location updates store a pair.\<close>

record stats =
  totalResponses :: nat
  successfulAssists :: nat
  declinedAlerts :: nat
  avgResponseTime :: "real option"
  rating :: real
  totalRatings :: nat

record badge =
  b_name :: string
  b_icon :: nat
  b_earnedAt :: date

record volunteer =
  v_id :: oid
  v_user :: oid
  v_isVerified :: bool
  v_status :: volunteer_status
  v_isOnDuty :: bool
  v_currentLocation :: "(real \<times> real) option"
  v_stats :: stats
  v_badges :: "badge list"
  v_updatedAt :: date

text \<open>\<open>models/Alert.js\<close>. Coordinates are stored as \<open>[longitude, latitude]\<close>. The nested
  paths \<open>respondingVolunteer\<close> and \<open>resolution\<close> always exist; their members are optional.\<close>

record location =
  l_coordinates :: "real \<times> real"
  l_address :: "string option"
  l_updatedAt :: "date option"

record history_point =
  h_coordinates :: "real \<times> real"
  h_timestamp :: date

record notified_volunteer =
  nv_volunteer :: oid
  nv_notifiedAt :: date
  nv_distance :: "int option"
  nv_status :: entry_status

record responding_volunteer =
  rv_volunteer :: "oid option"
  rv_acceptedAt :: "date option"
  rv_distance :: "int option"

record notified_contact =
  nc_contact :: oid
  nc_notifiedAt :: date
  nc_method :: contact_method
  nc_status :: contact_status

record timeline_entry =
  t_action :: string
  t_description :: string
  t_performedBy :: oid
  t_timestamp :: date

record resolution =
  r_resolvedBy :: "oid option"
  r_resolvedAt :: "date option"
  r_notes :: "string option"
  r_rating :: "real option"
  r_feedback :: "string option"

record alert =
  a_id :: oid
  a_user :: oid
  a_location :: location
  a_locationHistory :: "history_point list"
  a_status :: alert_status
  a_priority :: alert_priority
  a_type :: alert_type
  a_message :: "string option"
  a_notifiedVolunteers :: "notified_volunteer list"
  a_respondingVolunteer :: responding_volunteer
  a_notifiedContacts :: "notified_contact list"
  a_timeline :: "timeline_entry list"
  a_resolution :: resolution
  a_responseTime :: "int option"
  a_totalDuration :: "int option"
  a_createdAt :: date
  a_updatedAt :: date
  a_expiresAt :: date

text \<open>\<open>EmergencyContact\<close> (second schema of \<open>models/Alert.js\<close>).\<close>

record emergency_contact =
  c_id :: oid
  c_user :: oid
  c_name :: string
  c_phone :: code_units
  c_isPrimary :: bool
  c_isActive :: bool

record world =
  alerts :: "alert list"
  volunteers :: "volunteer list"
  contacts :: "emergency_contact list"

text \<open>The authenticated caller (\<open>req.user\<close>) and the response \<open>res.status(c).json(...)\<close>.\<close>

record caller =
  u_id :: oid
  u_name :: string
  u_role :: role

datatype response = Response (rcode: nat) (rsuccess: bool) (rmessage: string)

subsection \<open>Volunteer methods (\<open>models/Volunteer.js\<close>)\<close>

text \<open>Arithmetic on numbers that may be \<open>NaN\<close>: \<open>NaN\<close> propagates and compares false.\<close>

definition num_add :: "real option \<Rightarrow> real option \<Rightarrow> real option" where
  "num_add a b = (case a of None \<Rightarrow> None | Some x \<Rightarrow> (case b of None \<Rightarrow> None | Some y \<Rightarrow> Some (x + y)))"

definition num_mul :: "real option \<Rightarrow> real option \<Rightarrow> real option" where
  "num_mul a b = (case a of None \<Rightarrow> None | Some x \<Rightarrow> (case b of None \<Rightarrow> None | Some y \<Rightarrow> Some (x * y)))"

definition num_div :: "real option \<Rightarrow> real \<Rightarrow> real option" where
  "num_div a d = (case a of None \<Rightarrow> None | Some x \<Rightarrow> Some (x / d))"

definition num_less :: "real option \<Rightarrow> real \<Rightarrow> bool" where
  "num_less a c = (case a of None \<Rightarrow> False | Some x \<Rightarrow> x < c)"

text \<open>\<open>!x\<close> for an optional JSON number: an absent value and the number 0 are falsy.\<close>

definition falsy_num :: "real option \<Rightarrow> bool" where
  "falsy_num r = (case r of None \<Rightarrow> True | Some x \<Rightarrow> x = 0)"

definition add_rating :: "real \<Rightarrow> stats \<Rightarrow> stats" where
  "add_rating r s =
     (let totalRating = rating s * real (totalRatings s) + r;
          n = totalRatings s + 1
      in s\<lparr>totalRatings := n, rating := totalRating / real n\<rparr>)"

text \<open>\<open>updateStats(responseTime, wasSuccessful, rating)\<close>; \<open>responseTime\<close> is \<open>None\<close>
  when the alert carries none (\<open>undefined\<close>, which makes the average \<open>NaN\<close>).\<close>

definition updateStats :: "date \<Rightarrow> int option \<Rightarrow> bool \<Rightarrow> real option \<Rightarrow> volunteer \<Rightarrow> volunteer" where
  "updateStats now responseTime wasSuccessful rtg v =
     (let s0 = v_stats v;
          s1 = s0\<lparr>totalResponses := totalResponses s0 + 1\<rparr>;
          s2 = (if wasSuccessful then s1\<lparr>successfulAssists := successfulAssists s1 + 1\<rparr> else s1);
          totalTime = num_add (num_mul (avgResponseTime s2) (Some (real (totalResponses s2 - 1))))
                              (map_option real_of_int responseTime);
          s3 = s2\<lparr>avgResponseTime := num_div totalTime (real (totalResponses s2))\<rparr>;
          s4 = (case rtg of None \<Rightarrow> s3 | Some r \<Rightarrow> if r \<noteq> 0 then add_rating r s3 else s3)
      in v\<lparr>v_stats := s4, v_updatedAt := now\<rparr>)"

definition has_badge :: "volunteer \<Rightarrow> string \<Rightarrow> bool" where
  "has_badge v n = (find (\<lambda>b. b_name b = n) (v_badges v) \<noteq> None)"

definition new_badge :: "string \<Rightarrow> nat \<Rightarrow> date \<Rightarrow> badge" where
  "new_badge n i now = \<lparr>b_name = n, b_icon = i, b_earnedAt = now\<rparr>"

text \<open>\<open>checkBadges()\<close>: returns the saved document and \<open>badgesToAward\<close>.\<close>

definition checkBadges :: "date \<Rightarrow> volunteer \<Rightarrow> volunteer \<times> badge list" where
  "checkBadges now v =
     (let s = v_stats v;
          b1 = (if totalResponses s \<ge> 1 \<and> \<not> has_badge v ''First Responder''
                then [new_badge ''First Responder'' 0x1F3C5 now] else []);
          b2 = (if successfulAssists s \<ge> 10 \<and> \<not> has_badge v ''10 Assists''
                then [new_badge ''10 Assists'' 0x2B50 now] else []);
          b3 = (if successfulAssists s \<ge> 25 \<and> \<not> has_badge v ''25 Assists''
                then [new_badge ''25 Assists'' 0x1F31F now] else []);
          b4 = (if successfulAssists s \<ge> 50 \<and> \<not> has_badge v ''50 Assists''
                then [new_badge ''50 Assists'' 0x1F3C6 now] else []);
          b5 = (if num_less (avgResponseTime s) 180 \<and> totalResponses s \<ge> 5
                   \<and> \<not> has_badge v ''Quick Responder''
                then [new_badge ''Quick Responder'' 0x26A1 now] else []);
          badgesToAward = b1 @ b2 @ b3 @ b4 @ b5
      in if length badgesToAward > 0
         then (v\<lparr>v_badges := v_badges v @ badgesToAward, v_updatedAt := now\<rparr>, badgesToAward)
         else (v, badgesToAward))"

subsection \<open>Registration, verification and duty of a volunteer\<close>

text \<open>The profile that \<open>registerVolunteer\<close> (\<open>controllers/authController.js\<close>) creates with
  \<open>Volunteer.create({user, idType, ...})\<close>. The call sets none of the paths modelled here
  but \<open>user\<close>, so each of them takes the default of the schema: not verified, status
  \<open>pending\<close>, off duty, coordinates \<open>[0, 0]\<close>, zero statistics, no badge.\<close>

definition registerVolunteer :: "date \<Rightarrow> oid \<Rightarrow> oid \<Rightarrow> volunteer" where
  "registerVolunteer now i uid =
     \<lparr>v_id = i, v_user = uid, v_isVerified = False, v_status = v_pending, v_isOnDuty = False,
      v_currentLocation = Some (0, 0),
      v_stats = \<lparr>totalResponses = 0, successfulAssists = 0, declinedAlerts = 0,
                 avgResponseTime = Some 0, rating = 0, totalRatings = 0\<rparr>,
      v_badges = [], v_updatedAt = now\<rparr>"

text \<open>The update of \<open>verifyVolunteer\<close> (admin controller, \<open>findByIdAndUpdate\<close>) and the one
  of \<open>toggleDuty\<close> (\<open>controllers/volunteerController.js\<close>, refused before verification)
  on the volunteer document.\<close>

definition verifyVolunteer :: "volunteer \<Rightarrow> volunteer" where
  "verifyVolunteer v = v\<lparr>v_isVerified := True, v_status := v_active\<rparr>"

definition toggleDuty :: "date \<Rightarrow> volunteer \<Rightarrow> volunteer" where
  "toggleDuty now v =
     (if \<not> v_isVerified v then v
      else v\<lparr>v_isOnDuty := \<not> v_isOnDuty v, v_updatedAt := now\<rparr>)"

subsection \<open>Alert methods (\<open>models/Alert.js\<close>) and store access\<close>

definition findAlert :: "world \<Rightarrow> oid \<Rightarrow> alert option" where
  "findAlert w i = find (\<lambda>a. a_id a = i) (alerts w)"

definition findVolunteerByUser :: "world \<Rightarrow> oid \<Rightarrow> volunteer option" where
  "findVolunteerByUser w uid = find (\<lambda>v. v_user v = uid) (volunteers w)"

definition findVolunteerById :: "world \<Rightarrow> oid \<Rightarrow> volunteer option" where
  "findVolunteerById w i = find (\<lambda>v. v_id v = i) (volunteers w)"

text \<open>\<open>alert.save()\<close> on the document that the running handler has read: the
  \<open>pre('save')\<close> hook, then the write.\<close>

definition saveAlert :: "date \<Rightarrow> alert \<Rightarrow> world \<Rightarrow> world" where
  "saveAlert now a w =
     w\<lparr>alerts := map (\<lambda>d. if a_id d = a_id a then a\<lparr>a_updatedAt := now\<rparr> else d) (alerts w)\<rparr>"

definition storeVolunteer :: "volunteer \<Rightarrow> world \<Rightarrow> world" where
  "storeVolunteer v w =
     w\<lparr>volunteers := map (\<lambda>d. if v_id d = v_id v then v else d) (volunteers w)\<rparr>"

text \<open>\<open>addTimelineEntry\<close> pushes the entry; its \<open>save()\<close> is the \<open>saveAlert\<close> that every
  caller below performs right after.\<close>

definition addTimelineEntry :: "date \<Rightarrow> string \<Rightarrow> string \<Rightarrow> oid \<Rightarrow> alert \<Rightarrow> alert" where
  "addTimelineEntry now action description performedBy a =
     a\<lparr>a_timeline := a_timeline a @
        [\<lparr>t_action = action, t_description = description,
          t_performedBy = performedBy, t_timestamp = now\<rparr>]\<rparr>"

text \<open>\<open>Math.floor((acceptedAt - createdAt) / 1000)\<close>: integer division rounds down.\<close>

definition calculateResponseTime :: "alert \<Rightarrow> alert" where
  "calculateResponseTime a =
     (case rv_acceptedAt (a_respondingVolunteer a) of
        None \<Rightarrow> a
      | Some t \<Rightarrow> a\<lparr>a_responseTime := Some ((t - a_createdAt a) div 1000)\<rparr>)"

definition calculateTotalDuration :: "alert \<Rightarrow> alert" where
  "calculateTotalDuration a =
     (case r_resolvedAt (a_resolution a) of
        None \<Rightarrow> a
      | Some t \<Rightarrow> a\<lparr>a_totalDuration := Some ((t - a_createdAt a) div 1000)\<rparr>)"

subsection \<open>Lifecycle handlers (alert controller)\<close>

text \<open>\<open>notifiedEntry = alert.notifiedVolunteers.find(v => v.volunteer.equals(id))\<close> followed
  by \<open>notifiedEntry.status = st\<close>: the first matching entry is updated in place.\<close>

definition findEntry :: "oid \<Rightarrow> notified_volunteer list \<Rightarrow> notified_volunteer option" where
  "findEntry vid es = find (\<lambda>e. nv_volunteer e = vid) es"

fun setEntryStatus :: "oid \<Rightarrow> entry_status \<Rightarrow> notified_volunteer list \<Rightarrow> notified_volunteer list" where
  "setEntryStatus vid st [] = []"
| "setEntryStatus vid st (e # es) =
     (if nv_volunteer e = vid then e\<lparr>nv_status := st\<rparr> # es else e # setEntryStatus vid st es)"

definition acceptAlert :: "date \<Rightarrow> caller \<Rightarrow> oid \<Rightarrow> world \<Rightarrow> world \<times> response" where
  "acceptAlert now u i w =
     (case findAlert w i of
        None \<Rightarrow> (w, Response 404 False ''Alert not found'')
      | Some a \<Rightarrow>
          if a_status a \<noteq> active then (w, Response 400 False ''Alert is no longer active'')
          else (case findVolunteerByUser w (u_id u) of
             None \<Rightarrow> (w, Response 403 False ''Volunteer profile not found'')
           | Some vol \<Rightarrow>
              (case findEntry (v_id vol) (a_notifiedVolunteers a) of
                 None \<Rightarrow> (w, Response 403 False ''You were not notified for this alert'')
               | Some notifiedEntry \<Rightarrow>
                   let a1 = a\<lparr>a_status := responding,
                               a_respondingVolunteer :=
                                 \<lparr>rv_volunteer = Some (v_id vol), rv_acceptedAt = Some now,
                                  rv_distance = nv_distance notifiedEntry\<rparr>\<rparr>;
                       a2 = calculateResponseTime a1;
                       a3 = a2\<lparr>a_notifiedVolunteers :=
                                 setEntryStatus (v_id vol) accepted (a_notifiedVolunteers a2)\<rparr>;
                       a4 = addTimelineEntry now ''accepted''
                              (''Volunteer '' @ u_name u @ '' accepted the alert'') (u_id u) a3
                   in (saveAlert now a4 w, Response 200 True ''Alert accepted successfully''))))"

definition declineAlert :: "date \<Rightarrow> caller \<Rightarrow> oid \<Rightarrow> world \<Rightarrow> world \<times> response" where
  "declineAlert now u i w =
     (case findAlert w i of
        None \<Rightarrow> (w, Response 404 False ''Alert not found'')
      | Some a \<Rightarrow>
         (case findVolunteerByUser w (u_id u) of
            None \<Rightarrow> (w, Response 403 False ''Volunteer profile not found'')
          | Some vol \<Rightarrow>
              let w1 = (case findEntry (v_id vol) (a_notifiedVolunteers a) of
                          None \<Rightarrow> w
                        | Some notifiedEntry \<Rightarrow>
                            saveAlert now
                              (a\<lparr>a_notifiedVolunteers :=
                                   setEntryStatus (v_id vol) declined (a_notifiedVolunteers a)\<rparr>) w);
                  s = v_stats vol;
                  vol1 = vol\<lparr>v_stats := s\<lparr>declinedAlerts := declinedAlerts s + 1\<rparr>,
                             v_updatedAt := now\<rparr>
              in (storeVolunteer vol1 w1, Response 200 True ''Alert declined'')))"

definition cancelAlert :: "date \<Rightarrow> caller \<Rightarrow> oid \<Rightarrow> world \<Rightarrow> world \<times> response" where
  "cancelAlert now u i w =
     (case findAlert w i of
        None \<Rightarrow> (w, Response 404 False ''Alert not found'')
      | Some a \<Rightarrow>
          if a_user a \<noteq> u_id u then (w, Response 403 False ''Not authorized to cancel this alert'')
          else if a_status a = resolved \<or> a_status a = cancelled
            then (w, Response 400 False ''Alert is already closed'')
          else
            let a1 = a\<lparr>a_status := cancelled\<rparr>;
                a2 = addTimelineEntry now ''cancelled'' ''Alert cancelled by user'' (u_id u) a1
            in (saveAlert now a2 w, Response 200 True ''Alert cancelled successfully''))"

record resolve_body =
  rb_notes :: "string option"
  rb_rating :: "real option"
  rb_feedback :: "string option"

definition resolveAlert :: "date \<Rightarrow> caller \<Rightarrow> oid \<Rightarrow> resolve_body \<Rightarrow> world \<Rightarrow> world \<times> response" where
  "resolveAlert now u i body w =
     (case findAlert w i of
        None \<Rightarrow> (w, Response 404 False ''Alert not found'')
      | Some a \<Rightarrow>
          let isOwner = (a_user a = u_id u);
              volunteer = findVolunteerByUser w (u_id u);
              isRespondingVolunteer =
                (case volunteer of
                   None \<Rightarrow> False
                 | Some v \<Rightarrow> rv_volunteer (a_respondingVolunteer a) = Some (v_id v))
          in if \<not> isOwner \<and> \<not> isRespondingVolunteer \<and> u_role u \<noteq> role_admin
             then (w, Response 403 False ''Not authorized to resolve this alert'')
             else
               let a1 = a\<lparr>a_status := resolved,
                           a_resolution :=
                             \<lparr>r_resolvedBy = Some (u_id u), r_resolvedAt = Some now,
                              r_notes = rb_notes body, r_rating = rb_rating body,
                              r_feedback = rb_feedback body\<rparr>\<rparr>;
                   a2 = calculateTotalDuration a1;
                   a3 = addTimelineEntry now ''resolved'' ''Alert resolved'' (u_id u) a2;
                   w1 = saveAlert now a3 w;
                   w2 = (case volunteer of
                           None \<Rightarrow> w1
                         | Some v \<Rightarrow>
                             if isRespondingVolunteer
                             then storeVolunteer
                                    (fst (checkBadges now
                                       (updateStats now (a_responseTime a3) True (rb_rating body) v))) w1
                             else w1)
               in (w2, Response 200 True ''Alert resolved successfully''))"

record feedback_body =
  fb_rating :: "real option"
  fb_feedback :: "string option"

definition submitFeedback :: "date \<Rightarrow> caller \<Rightarrow> oid \<Rightarrow> feedback_body \<Rightarrow> world \<Rightarrow> world \<times> response" where
  "submitFeedback now u i body w =
     (case findAlert w i of
        None \<Rightarrow> (w, Response 404 False ''Alert not found'')
      | Some a \<Rightarrow>
          if a_user a \<noteq> u_id u
            then (w, Response 403 False ''Only the alert creator can submit feedback'')
          else if a_status a \<noteq> resolved
            then (w, Response 400 False ''Feedback can only be submitted for resolved alerts'')
          else (case fb_rating body of
             None \<Rightarrow> (w, Response 400 False ''Rating must be between 1 and 5'')
           | Some r \<Rightarrow>
               if r = 0 \<or> r < 1 \<or> r > 5
                 then (w, Response 400 False ''Rating must be between 1 and 5'')
               else
                 let a1 = a\<lparr>a_resolution := (a_resolution a)
                             \<lparr>r_rating := Some r,
                              r_feedback := Some (case fb_feedback body of None \<Rightarrow> [] | Some f \<Rightarrow> f)\<rparr>\<rparr>;
                     w1 = saveAlert now a1 w;
                     w2 = (case rv_volunteer (a_respondingVolunteer a1) of
                             None \<Rightarrow> w1
                           | Some vid \<Rightarrow>
                              (case findVolunteerById w1 vid of
                                 None \<Rightarrow> w1
                               | Some v \<Rightarrow>
                                   let v1 = v\<lparr>v_stats := add_rating r (v_stats v),
                                              v_updatedAt := now\<rparr>
                                   in storeVolunteer (fst (checkBadges now v1)) w1))
                 in (w2, Response 200 True ''Thank you for your feedback!'')))"

definition updateAlertLocation :: "date \<Rightarrow> caller \<Rightarrow> oid \<Rightarrow> real \<Rightarrow> real \<Rightarrow> world \<Rightarrow> world \<times> response" where
  "updateAlertLocation now u i latitude longitude w =
     (case findAlert w i of
        None \<Rightarrow> (w, Response 404 False ''Alert not found'')
      | Some a \<Rightarrow>
          if a_user a \<noteq> u_id u then (w, Response 403 False ''Not authorized'')
          else if a_status a = resolved \<or> a_status a = cancelled
            then (w, Response 400 False ''Alert is already closed'')
          else
            let a1 = a\<lparr>a_location :=
                          \<lparr>l_coordinates = (longitude, latitude),
                           l_address = l_address (a_location a),
                           l_updatedAt = Some now\<rparr>,
                        a_locationHistory := a_locationHistory a @
                          [\<lparr>h_coordinates = (longitude, latitude), h_timestamp = now\<rparr>]\<rparr>
            in (saveAlert now a1 w, Response 200 True ''Location updated''))"

subsection \<open>SMS notification service (\<open>services/notificationService.js\<close>)\<close>

text \<open>A phone number is kept as the sequence of its UTF-16 code units, on which
  \<open>replace\<close>, \<open>startsWith\<close>, \<open>slice\<close> and \<open>length\<close> work in JavaScript; \<open>units\<close> gives the
  code units of an ASCII literal. \<open>js_space\<close> is the class \<open>\s\<close> of a regular expression:
  tab, line feed, vertical tab, form feed, carriage return, space, no-break space, the
  byte order mark, the line and paragraph separators and the other space separators of
  Unicode.\<close>

definition units :: "string \<Rightarrow> code_units" where
  "units s = map of_char s"

definition js_space :: "nat \<Rightarrow> bool" where
  "js_space c = (c = 0x09 \<or> c = 0x0A \<or> c = 0x0B \<or> c = 0x0C \<or> c = 0x0D \<or> c = 0x20
     \<or> c = 0xA0 \<or> c = 0x1680 \<or> (0x2000 \<le> c \<and> c \<le> 0x200A) \<or> c = 0x2028 \<or> c = 0x2029
     \<or> c = 0x202F \<or> c = 0x205F \<or> c = 0x3000 \<or> c = 0xFEFF)"

definition startsWith :: "'a list \<Rightarrow> 'a list \<Rightarrow> bool" where
  "startsWith s p = (take (length p) s = p)"

text \<open>\<open>cleanPhone\<close>; \<open>0x2D\<close>, \<open>0x28\<close> and \<open>0x29\<close> are the hyphen and the two parentheses.\<close>

definition cleanPhone :: "code_units \<Rightarrow> code_units" where
  "cleanPhone phone =
     (let c0 = filter (\<lambda>c. \<not> (js_space c \<or> c = 0x2D \<or> c = 0x28 \<or> c = 0x29)) phone;
          c1 = (if startsWith c0 (units ''+91'') then drop 3 c0 else c0);
          c2 = (if startsWith c1 (units ''91'') \<and> length c1 = 12 then drop 2 c1 else c1);
          c3 = (if startsWith c2 (units ''0'') then drop 1 c2 else c2)
      in c3)"

text \<open>\<open>config.sms\<close>, the object that \<open>sendSMS\<close> reads its API key from. The object exported
  by \<open>config/config.js\<close> has the members \<open>jwt\<close>, \<open>server\<close>, \<open>cors\<close>, \<open>alert\<close>, \<open>roles\<close>,
  \<open>alertStatus\<close>, \<open>twilio\<close> and \<open>volunteerStatus\<close> and no member \<open>sms\<close>: \<open>config.sms\<close> is
  \<open>undefined\<close>, which is \<open>None\<close> here. A configuration that has the member gives
  \<open>Some\<close> of it, with the key \<open>None\<close> when that is unset.\<close>

record sms_config =
  fast2smsApiKey :: "string option"

definition config_sms :: "sms_config option" where
  "config_sms = None"

text \<open>The Fast2SMS endpoint is outside the repository: its answer to a POST is a parameter,
  \<open>Accepted\<close> for \<open>data.return === true\<close>, \<open>Refused\<close> for any other body, \<open>Threw\<close> when
  \<open>fetch\<close> or \<open>response.json()\<close> throws. What \<open>sendSMS\<close> does is recorded as an effect: a
  logged stub or a POST of (numbers, message).

  The first statement of \<open>sendSMS\<close>, \<open>const apiKey = config.sms.fast2smsApiKey\<close>, stands
  before the \<open>try\<close> of the function: when \<open>config.sms\<close> is \<open>undefined\<close> the property read
  throws a \<open>TypeError\<close> out of \<open>sendSMS\<close> before anything is cleaned, logged or posted.\<close>

datatype js_error = TypeError

datatype gateway_reply = Accepted | Refused | Threw

datatype sms_effect = Stub code_units string | Post code_units string

definition sendSMS :: "sms_config option \<Rightarrow> (code_units \<Rightarrow> string \<Rightarrow> gateway_reply) \<Rightarrow> code_units
    \<Rightarrow> string \<Rightarrow> js_error + bool \<times> sms_effect" where
  "sendSMS smsConfig gateway to message =
     (case smsConfig of
        None \<Rightarrow> Inl TypeError
      | Some sms_member \<Rightarrow>
          let apiKey = fast2smsApiKey sms_member;
              phone = cleanPhone to
          in if apiKey = None \<or> apiKey = Some []
             then Inr (True, Stub phone message)
             else (case gateway phone message of
                     Accepted \<Rightarrow> Inr (True, Post phone message)
                   | Refused \<Rightarrow> Inr (False, Post phone message)
                   | Threw \<Rightarrow> Inr (False, Post phone message)))"

record notify_result =
  nr_contactId :: oid
  nr_method :: contact_method
  nr_status :: contact_status

text \<open>The template literal renders the coordinates with JavaScript's number-to-string
  conversion, a parameter here.\<close>

definition smsMessage :: "(real \<Rightarrow> string) \<Rightarrow> caller \<Rightarrow> alert \<Rightarrow> string" where
  "smsMessage numToString u a =
     (let longitude = fst (l_coordinates (a_location a));
          latitude = snd (l_coordinates (a_location a));
          locationLink = ''https://www.google.com/maps?q='' @ numToString latitude @ '','' @ numToString longitude
      in ''EMERGENCY! '' @ u_name u @ '' triggered SOS on SafeHer and needs help. '' @
         ''Location: '' @ locationLink)"

text \<open>\<open>notifyEmergencyContacts\<close>: the \<open>for\<close> loop over the contacts. Each round pushes one
  result; when \<open>sendSMS\<close> throws, the \<open>catch\<close> of the round logs the error and pushes
  \<open>failed\<close>, and the loop goes on with the next contact. The second component collects
  what the calls of \<open>sendSMS\<close> have sent or stubbed.\<close>

definition notifyEmergencyContacts :: "sms_config option \<Rightarrow> (code_units \<Rightarrow> string \<Rightarrow> gateway_reply)
    \<Rightarrow> (real \<Rightarrow> string) \<Rightarrow> emergency_contact list \<Rightarrow> caller \<Rightarrow> alert
    \<Rightarrow> notify_result list \<times> sms_effect list" where
  "notifyEmergencyContacts smsConfig gateway numToString cs u a =
     (let message = smsMessage numToString u a;
          rounds = map (\<lambda>contact.
             (case sendSMS smsConfig gateway (c_phone contact) message of
                Inr smsResult \<Rightarrow>
                  (\<lparr>nr_contactId = c_id contact, nr_method = sms,
                    nr_status = (if fst smsResult then sent else failed)\<rparr>, [snd smsResult])
              | Inl err \<Rightarrow>
                  (\<lparr>nr_contactId = c_id contact, nr_method = sms, nr_status = failed\<rparr>, []))) cs
      in (map fst rounds, concat (map snd rounds)))"

subsection \<open>Alert creation and volunteer matching (\<open>createAlert\<close>)\<close>

text \<open>\<open>config.alert\<close>.\<close>

definition searchRadius :: real where
  "searchRadius = 5"

definition maxVolunteersToNotify :: nat where
  "maxVolunteersToNotify = 10"

text \<open>\<open>calculateDistance\<close> (Haversine), over the reals instead of IEEE doubles.\<close>

definition atan2 :: "real \<Rightarrow> real \<Rightarrow> real" where
  "atan2 y x =
     (if x > 0 then arctan (y / x)
      else if x < 0 \<and> y \<ge> 0 then arctan (y / x) + pi
      else if x < 0 then arctan (y / x) - pi
      else if y > 0 then pi / 2
      else if y < 0 then - (pi / 2)
      else 0)"

definition calculateDistance :: "real \<Rightarrow> real \<Rightarrow> real \<Rightarrow> real \<Rightarrow> int" where
  "calculateDistance lat1 lon1 lat2 lon2 =
     (let R = 6371000;
          phi1 = lat1 * pi / 180;
          phi2 = lat2 * pi / 180;
          dphi = (lat2 - lat1) * pi / 180;
          dlam = (lon2 - lon1) * pi / 180;
          a = sin (dphi / 2) * sin (dphi / 2) +
              cos phi1 * cos phi2 * sin (dlam / 2) * sin (dlam / 2);
          c = 2 * atan2 (sqrt a) (sqrt (1 - a))
      in round (R * c))"

definition eligible :: "volunteer \<Rightarrow> bool" where
  "eligible v = (v_isVerified v \<and> v_status v = v_active \<and> v_isOnDuty v)"

text \<open>The sort key of a volunteer document for a query point: the store's distance \<open>gd\<close>
  from the point to the volunteer's location.\<close>

definition geoKey :: "(real \<times> real \<Rightarrow> real \<times> real \<Rightarrow> real) \<Rightarrow> real \<times> real \<Rightarrow> volunteer \<Rightarrow> real" where
  "geoKey gd pt v = (case v_currentLocation v of None \<Rightarrow> 0 | Some l \<Rightarrow> gd pt l)"

text \<open>Modelled from the spec: MongoDB's \<open>$near\<close> operator, which the repository only calls.
  Per the Geo Index and Store contracts it answers with the documents whose location lies
  within the radius, ascending by distance, and with the empty list rather than an error
  when nothing matches. The store's own distance between two \<open>[longitude, latitude]\<close>
  points (in metres) is the parameter \<open>gd\<close>.\<close>

definition geoNear :: "(real \<times> real \<Rightarrow> real \<times> real \<Rightarrow> real) \<Rightarrow> real \<times> real \<Rightarrow> real
    \<Rightarrow> volunteer list \<Rightarrow> volunteer list" where
  "geoNear gd pt maxDistance vs =
     sort_key (geoKey gd pt)
       (filter (\<lambda>v. v_currentLocation v \<noteq> None \<and> geoKey gd pt v \<le> maxDistance) vs)"

text \<open>What the handler takes from its environment: the clock, the \<open>_id\<close> that
  \<open>Alert.create\<close> assigns, whether the geospatial query throws, the store's distance,
  the member \<open>sms\<close> of the configuration, the gateway and the number rendering.\<close>

record env =
  e_now :: date
  e_newId :: oid
  e_geoFails :: bool
  e_geoDistance :: "real \<times> real \<Rightarrow> real \<times> real \<Rightarrow> real"
  e_sms :: "sms_config option"
  e_gateway :: "code_units \<Rightarrow> string \<Rightarrow> gateway_reply"
  e_numToString :: "real \<Rightarrow> string"

text \<open>Lines 38 to 71: the geospatial query inside \<open>try\<close>, then the fallback.\<close>

definition findNearbyVolunteers :: "env \<Rightarrow> world \<Rightarrow> real \<Rightarrow> real \<Rightarrow> volunteer list" where
  "findNearbyVolunteers e w latitude longitude =
     (let nearbyVolunteers =
            (if e_geoFails e then []
             else take maxVolunteersToNotify
                    (geoNear (e_geoDistance e) (longitude, latitude) (searchRadius * 1000)
                       (filter eligible (volunteers w))))
      in if length nearbyVolunteers = 0
         then take maxVolunteersToNotify (filter eligible (volunteers w))
         else nearbyVolunteers)"

text \<open>Lines 74 to 85.\<close>

definition notifiedEntryOf :: "date \<Rightarrow> real \<Rightarrow> real \<Rightarrow> volunteer \<Rightarrow> notified_volunteer" where
  "notifiedEntryOf now latitude longitude v =
     \<lparr>nv_volunteer = v_id v, nv_notifiedAt = now,
      nv_distance = (case v_currentLocation v of
                       None \<Rightarrow> None
                     | Some l \<Rightarrow> Some (calculateDistance latitude longitude (snd l) (fst l))),
      nv_status = notified\<rparr>"

record create_body =
  cb_latitude :: "real option"
  cb_longitude :: "real option"
  cb_address :: "string option"
  cb_message :: "string option"
  cb_type :: "alert_type option"

record create_data =
  cd_alertId :: oid
  cd_volunteersNotified :: nat
  cd_contactsNotified :: nat

record create_result =
  cr_world :: world
  cr_response :: response
  cr_data :: "create_data option"
  cr_sms :: "sms_effect list"

definition newAlert :: "env \<Rightarrow> caller \<Rightarrow> real \<Rightarrow> real \<Rightarrow> create_body \<Rightarrow> alert" where
  "newAlert e u latitude longitude body =
     \<lparr>a_id = e_newId e, a_user = u_id u,
      a_location = \<lparr>l_coordinates = (longitude, latitude), l_address = cb_address body,
                    l_updatedAt = None\<rparr>,
      a_locationHistory = [],
      a_status = active, a_priority = high,
      a_type = (case cb_type body of None \<Rightarrow> sos | Some t \<Rightarrow> t),
      a_message = cb_message body,
      a_notifiedVolunteers = [],
      a_respondingVolunteer = \<lparr>rv_volunteer = None, rv_acceptedAt = None, rv_distance = None\<rparr>,
      a_notifiedContacts = [],
      a_timeline = [\<lparr>t_action = ''created'', t_description = ''Emergency alert created'',
                     t_performedBy = u_id u, t_timestamp = e_now e\<rparr>],
      a_resolution = \<lparr>r_resolvedBy = None, r_resolvedAt = None, r_notes = None,
                      r_rating = None, r_feedback = None\<rparr>,
      a_responseTime = None, a_totalDuration = None,
      a_createdAt = e_now e, a_updatedAt = e_now e,
      a_expiresAt = e_now e + 30 * 60 * 1000\<rparr>"

definition createAlert :: "env \<Rightarrow> caller \<Rightarrow> create_body \<Rightarrow> world \<Rightarrow> create_result" where
  "createAlert e u body w =
     (if falsy_num (cb_latitude body) \<or> falsy_num (cb_longitude body)
      then \<lparr>cr_world = w, cr_response = Response 400 False ''Location is required'',
            cr_data = None, cr_sms = []\<rparr>
      else
        (case cb_latitude body of None \<Rightarrow>
              \<lparr>cr_world = w, cr_response = Response 400 False ''Location is required'',
               cr_data = None, cr_sms = []\<rparr>
         | Some latitude \<Rightarrow>
        (case cb_longitude body of None \<Rightarrow>
              \<lparr>cr_world = w, cr_response = Response 400 False ''Location is required'',
               cr_data = None, cr_sms = []\<rparr>
         | Some longitude \<Rightarrow>
           let alert0 = newAlert e u latitude longitude body;
               w0 = w\<lparr>alerts := alerts w @ [alert0]\<rparr>;
               nearbyVolunteers = findNearbyVolunteers e w0 latitude longitude;
               alert1 = alert0\<lparr>a_notifiedVolunteers :=
                          map (notifiedEntryOf (e_now e) latitude longitude) nearbyVolunteers\<rparr>;
               emergencyContacts =
                 filter (\<lambda>c. c_user c = u_id u \<and> c_isActive c) (contacts w0);
               sent_out = (if length emergencyContacts > 0
                           then notifyEmergencyContacts (e_sms e) (e_gateway e) (e_numToString e)
                                  emergencyContacts u alert1
                           else ([], []));
               notificationResults = fst sent_out;
               alert2 = alert1\<lparr>a_notifiedContacts :=
                          (if length notificationResults > 0
                           then map (\<lambda>result.
                                  \<lparr>nc_contact = nr_contactId result, nc_notifiedAt = e_now e,
                                   nc_method = nr_method result, nc_status = nr_status result\<rparr>)
                                  notificationResults
                           else map (\<lambda>contact.
                                  \<lparr>nc_contact = c_id contact, nc_notifiedAt = e_now e,
                                   nc_method = sms, nc_status = contact_pending\<rparr>)
                                  emergencyContacts)\<rparr>
           in \<lparr>cr_world = saveAlert (e_now e) alert2 w0,
               cr_response = Response 201 True ''Emergency alert created successfully'',
               cr_data = Some \<lparr>cd_alertId = a_id alert2,
                               cd_volunteersNotified = length nearbyVolunteers,
                               cd_contactsNotified = length emergencyContacts\<rparr>,
               cr_sms = snd sent_out\<rparr>)))"

subsection \<open>Cleanup job (\<open>server.js\<close>)\<close>

datatype cleanup_log = LogExpired nat | LogDeleted nat | LogError

definition isStale :: "date \<Rightarrow> alert \<Rightarrow> bool" where
  "isStale oneDayAgo a =
     ((a_status a = active \<or> a_status a = pending \<or> a_status a = responding)
      \<and> a_createdAt a < oneDayAgo)"

text \<open>\<open>cleanupAlerts\<close>. Each of the two store calls may throw (\<open>updateFails\<close>,
  \<open>deleteFails\<close>); the \<open>catch\<close> logs the error and the function returns.\<close>

definition cleanupAlerts :: "date \<Rightarrow> bool \<Rightarrow> bool \<Rightarrow> world \<Rightarrow> world \<times> cleanup_log list" where
  "cleanupAlerts now updateFails deleteFails w =
     (let sevenDaysAgo = now - 7 * 24 * 60 * 60 * 1000;
          oneDayAgo = now - 24 * 60 * 60 * 1000
      in if updateFails then (w, [LogError])
         else
           let modifiedCount = length (filter (isStale oneDayAgo) (alerts w));
               w1 = w\<lparr>alerts := map (\<lambda>a. if isStale oneDayAgo a then a\<lparr>a_status := expired\<rparr> else a)
                                    (alerts w)\<rparr>;
               log1 = (if modifiedCount > 0 then [LogExpired modifiedCount] else [])
           in if deleteFails then (w1, log1 @ [LogError])
              else
                let deletedCount = length (filter (\<lambda>a. a_createdAt a < sevenDaysAgo) (alerts w1));
                    w2 = w1\<lparr>alerts := filter (\<lambda>a. \<not> a_createdAt a < sevenDaysAgo) (alerts w1)\<rparr>;
                    log2 = (if deletedCount > 0 then [LogDeleted deletedCount] else [])
                in (w2, log1 @ log2))"

text \<open>The \<open>listen\<close> callback calls \<open>cleanupAlerts()\<close> once and then
  \<open>setInterval(cleanupAlerts, 6 * 60 * 60 * 1000)\<close>: with timers firing on schedule, the
  \<open>k\<close>-th run starts this many milliseconds after the server began to listen.\<close>

definition cleanupInterval :: int where
  "cleanupInterval = 6 * 60 * 60 * 1000"

definition cleanupRunAt :: "nat \<Rightarrow> int" where
  "cleanupRunAt k = int k * cleanupInterval"

subsection \<open>Auxiliary definitions\<close>

text \<open>One conditional push of \<open>checkBadges\<close>, and the five of them in order.\<close>

definition award :: "bool \<Rightarrow> string \<Rightarrow> nat \<Rightarrow> date \<Rightarrow> volunteer \<Rightarrow> badge list" where
  "award c n i now v = (if c \<and> \<not> has_badge v n then [new_badge n i now] else [])"

definition awards :: "date \<Rightarrow> volunteer \<Rightarrow> badge list" where
  "awards now v =
     award (totalResponses (v_stats v) \<ge> 1) ''First Responder'' 0x1F3C5 now v @
     award (successfulAssists (v_stats v) \<ge> 10) ''10 Assists'' 0x2B50 now v @
     award (successfulAssists (v_stats v) \<ge> 25) ''25 Assists'' 0x1F31F now v @
     award (successfulAssists (v_stats v) \<ge> 50) ''50 Assists'' 0x1F3C6 now v @
     award (num_less (avgResponseTime (v_stats v)) 180 \<and> totalResponses (v_stats v) \<ge> 5)
        ''Quick Responder'' 0x26A1 now v"

text \<open>Every volunteer document is still there, in place, with the badges it had at the
  front of the badges it has; the badges that have come behind them have names that differ
  from one another and from the names of the badges held before.\<close>

definition badgesKept :: "world \<Rightarrow> world \<Rightarrow> bool" where
  "badgesKept w w' =
     list_all2 (\<lambda>v v'. v_id v' = v_id v
          \<and> take (length (v_badges v)) (v_badges v') = v_badges v
          \<and> distinct (map b_name (drop (length (v_badges v)) (v_badges v')))
          \<and> (\<forall>b \<in> set (drop (length (v_badges v)) (v_badges v')).
                b_name b \<notin> set (map b_name (v_badges v))))
       (volunteers w) (volunteers w')"


text \<open>The status of the stored alert \<open>i\<close>.\<close>

definition statusOf :: "world \<Rightarrow> oid \<Rightarrow> alert_status option" where
  "statusOf w i = map_option a_status (findAlert w i)"

text \<open>The responding volunteer of the stored alert \<open>i\<close>.\<close>

definition respondingOf :: "world \<Rightarrow> oid \<Rightarrow> oid option option" where
  "respondingOf w i = map_option (\<lambda>a. rv_volunteer (a_respondingVolunteer a)) (findAlert w i)"

text \<open>The outcome that one round of the notification loop records for a contact.\<close>

definition roundStatus :: "env \<Rightarrow> string \<Rightarrow> emergency_contact \<Rightarrow> contact_status" where
  "roundStatus e message c =
     (case sendSMS (e_sms e) (e_gateway e) (c_phone c) message of
        Inl err \<Rightarrow> failed
      | Inr smsResult \<Rightarrow> if fst smsResult then sent else failed)"

text \<open>What one round of the notification loop sends or stubs.\<close>

definition roundEffects :: "env \<Rightarrow> string \<Rightarrow> emergency_contact \<Rightarrow> sms_effect list" where
  "roundEffects e message c =
     (case sendSMS (e_sms e) (e_gateway e) (c_phone c) message of
        Inl err \<Rightarrow> []
      | Inr smsResult \<Rightarrow> [snd smsResult])"

text \<open>The notified-contacts list that \<open>createAlert\<close> builds from the SMS results, one
  entry per contact.\<close>

definition contactResults :: "env \<Rightarrow> caller \<Rightarrow> alert \<Rightarrow> emergency_contact list \<Rightarrow> notified_contact list" where
  "contactResults e u a cs =
     map (\<lambda>c. \<lparr>nc_contact = c_id c, nc_notifiedAt = e_now e, nc_method = sms,
                nc_status = roundStatus e (smsMessage (e_numToString e) u a) c\<rparr>) cs"

text \<open>The document that \<open>createAlert\<close> has saved when it answers 201.\<close>

definition createdAlert :: "env \<Rightarrow> caller \<Rightarrow> real \<Rightarrow> real \<Rightarrow> create_body \<Rightarrow> world \<Rightarrow> alert" where
  "createdAlert e u lat lon body w =
     (newAlert e u lat lon body)
        \<lparr>a_notifiedVolunteers :=
           map (notifiedEntryOf (e_now e) lat lon) (findNearbyVolunteers e w lat lon),
         a_notifiedContacts :=
           contactResults e u
             ((newAlert e u lat lon body)
                \<lparr>a_notifiedVolunteers :=
                   map (notifiedEntryOf (e_now e) lat lon) (findNearbyVolunteers e w lat lon)\<rparr>)
             (filter (\<lambda>c. c_user c = u_id u \<and> c_isActive c) (contacts w)),
         a_updatedAt := e_now e\<rparr>"

text \<open>The text of the SMS for a caller and coordinates.\<close>

definition smsText :: "(real \<Rightarrow> string) \<Rightarrow> string \<Rightarrow> real \<Rightarrow> real \<Rightarrow> string" where
  "smsText ns name lat lon =
     ''EMERGENCY! '' @ name @ '' triggered SOS on SafeHer and needs help. Location: '' @
     ''https://www.google.com/maps?q='' @ ns lat @ '','' @ ns lon"

text \<open>The saved outcomes of the stored alert \<open>i\<close>: contact, method and status of each
  notified-contacts entry.\<close>

definition contactOutcomes :: "world \<Rightarrow> oid \<Rightarrow> (oid \<times> contact_method \<times> contact_status) list option" where
  "contactOutcomes w i =
     map_option (\<lambda>a. map (\<lambda>n. (nc_contact n, nc_method n, nc_status n)) (a_notifiedContacts a))
       (findAlert w i)"

subsection \<open>Sample documents\<close>

definition vol_a :: volunteer where
  "vol_a = \<lparr>v_id = 10, v_user = 100, v_isVerified = True, v_status = v_active, v_isOnDuty = True,
            v_currentLocation = Some (77, 13),
            v_stats = \<lparr>totalResponses = 4, successfulAssists = 4, declinedAlerts = 0,
                       avgResponseTime = Some 200, rating = 4, totalRatings = 2\<rparr>,
            v_badges = [\<lparr>b_name = ''First Responder'', b_icon = 0x1F3C5, b_earnedAt = 500\<rparr>],
            v_updatedAt = 500\<rparr>"

definition vol_b :: volunteer where
  "vol_b = \<lparr>v_id = 11, v_user = 101, v_isVerified = True, v_status = v_active, v_isOnDuty = True,
            v_currentLocation = Some (0, 0),
            v_stats = \<lparr>totalResponses = 0, successfulAssists = 0, declinedAlerts = 0,
                       avgResponseTime = Some 0, rating = 0, totalRatings = 0\<rparr>,
            v_badges = [], v_updatedAt = 0\<rparr>"

text \<open>Five responses, no badge yet, average response time 170 s and 181 s.\<close>

definition vol_170 :: volunteer where
  "vol_170 = vol_b\<lparr>v_stats := \<lparr>totalResponses = 5, successfulAssists = 5, declinedAlerts = 0,
                       avgResponseTime = Some 170, rating = 0, totalRatings = 0\<rparr>\<rparr>"

definition vol_181 :: volunteer where
  "vol_181 = vol_b\<lparr>v_stats := \<lparr>totalResponses = 5, successfulAssists = 5, declinedAlerts = 0,
                       avgResponseTime = Some 181, rating = 0, totalRatings = 0\<rparr>\<rparr>"

text \<open>Five responses at an average of 170 s, holding First Responder.\<close>

definition vol_q :: volunteer where
  "vol_q = vol_170\<lparr>v_badges := [\<lparr>b_name = ''First Responder'', b_icon = 0x1F3C5, b_earnedAt = 500\<rparr>]\<rparr>"

text \<open>A hundred responses, all of them successful assists, no badge yet.\<close>

definition vol_100 :: volunteer where
  "vol_100 = vol_b\<lparr>v_stats := \<lparr>totalResponses = 100, successfulAssists = 100, declinedAlerts = 0,
                       avgResponseTime = Some 170, rating = 0, totalRatings = 0\<rparr>\<rparr>"

text \<open>An active alert of user 200, notified to the volunteers 10 and 11.\<close>

definition sample_alert :: alert where
  "sample_alert =
     \<lparr>a_id = 7, a_user = 200,
      a_location = \<lparr>l_coordinates = (77, 13), l_address = None, l_updatedAt = None\<rparr>,
      a_locationHistory = [],
      a_status = active, a_priority = high, a_type = sos, a_message = None,
      a_notifiedVolunteers =
        [\<lparr>nv_volunteer = 10, nv_notifiedAt = 1000, nv_distance = Some 0, nv_status = notified\<rparr>,
         \<lparr>nv_volunteer = 11, nv_notifiedAt = 1000, nv_distance = None, nv_status = notified\<rparr>],
      a_respondingVolunteer = \<lparr>rv_volunteer = None, rv_acceptedAt = None, rv_distance = None\<rparr>,
      a_notifiedContacts = [],
      a_timeline = [\<lparr>t_action = ''created'', t_description = ''Emergency alert created'',
                     t_performedBy = 200, t_timestamp = 1000\<rparr>],
      a_resolution = \<lparr>r_resolvedBy = None, r_resolvedAt = None, r_notes = None,
                      r_rating = None, r_feedback = None\<rparr>,
      a_responseTime = None, a_totalDuration = None,
      a_createdAt = 1000, a_updatedAt = 1000, a_expiresAt = 1801000\<rparr>"

definition contact_p :: emergency_contact where
  "contact_p = \<lparr>c_id = 30, c_user = 200, c_name = ''Mother'', c_phone = units ''+91 98765-43210'',
                c_isPrimary = True, c_isActive = True\<rparr>"

definition contact_q :: emergency_contact where
  "contact_q = \<lparr>c_id = 31, c_user = 200, c_name = ''Friend'', c_phone = units ''09876543211'',
                c_isPrimary = False, c_isActive = True\<rparr>"

definition sample_world :: world where
  "sample_world = \<lparr>alerts = [sample_alert], volunteers = [vol_a, vol_b],
                   contacts = [contact_p, contact_q]\<rparr>"

definition caller_a :: caller where
  "caller_a = \<lparr>u_id = 100, u_name = ''A'', u_role = role_volunteer\<rparr>"

definition caller_b :: caller where
  "caller_b = \<lparr>u_id = 101, u_name = ''B'', u_role = role_volunteer\<rparr>"

definition owner :: caller where
  "owner = \<lparr>u_id = 200, u_name = ''U'', u_role = role_user\<rparr>"



text \<open>The sample alert after volunteer 10 has accepted it, a resolve request with rating 5
  and a feedback request with rating 3.\<close>

definition responding_alert :: alert where
  "responding_alert =
     sample_alert\<lparr>a_status := responding,
       a_respondingVolunteer :=
         \<lparr>rv_volunteer = Some 10, rv_acceptedAt = Some 61000, rv_distance = Some 0\<rparr>,
       a_responseTime := Some 60,
       a_notifiedVolunteers :=
         [\<lparr>nv_volunteer = 10, nv_notifiedAt = 1000, nv_distance = Some 0, nv_status = accepted\<rparr>,
          \<lparr>nv_volunteer = 11, nv_notifiedAt = 1000, nv_distance = None, nv_status = notified\<rparr>],
       a_timeline := a_timeline sample_alert @
         [\<lparr>t_action = ''accepted'', t_description = ''Volunteer A accepted the alert'',
           t_performedBy = 100, t_timestamp = 61000\<rparr>],
       a_updatedAt := 61000\<rparr>"

definition responding_world :: world where
  "responding_world = sample_world\<lparr>alerts := [responding_alert]\<rparr>"

definition rate5 :: resolve_body where
  "rate5 = \<lparr>rb_notes = None, rb_rating = Some 5, rb_feedback = None\<rparr>"

definition fb3 :: feedback_body where
  "fb3 = \<lparr>fb_rating = Some 3, fb_feedback = None\<rparr>"

text \<open>Three alerts seen at time 1000000000: an active one created 25 hours before, a
  resolved one created 8 days before, an active one created 2 hours before.\<close>

definition alert_25h :: alert where
  "alert_25h = sample_alert\<lparr>a_createdAt := 1000000000 - 25 * 60 * 60 * 1000\<rparr>"

definition alert_8d :: alert where
  "alert_8d = sample_alert\<lparr>a_id := 8, a_status := resolved,
                a_createdAt := 1000000000 - 8 * 24 * 60 * 60 * 1000\<rparr>"

definition alert_2h :: alert where
  "alert_2h = sample_alert\<lparr>a_id := 9, a_createdAt := 1000000000 - 2 * 60 * 60 * 1000\<rparr>"

definition sweep_world :: world where
  "sweep_world = \<lparr>alerts = [alert_25h, alert_8d, alert_2h], volunteers = [], contacts = []\<rparr>"

text \<open>A create request at the place of volunteer 10, and the environment of the
  repository's configuration (no member \<open>sms\<close>), in which the store measures 1000 m per
  degree along each axis; the gateway, were it reached, refuses the second contact's
  number. \<open>keyed_env\<close> is the same environment under a configuration that has the member
  \<open>sms\<close> with an API key.\<close>

definition sample_body :: create_body where
  "sample_body = \<lparr>cb_latitude = Some 13, cb_longitude = Some 77, cb_address = None,
                  cb_message = None, cb_type = None\<rparr>"

definition grid_distance :: "real \<times> real \<Rightarrow> real \<times> real \<Rightarrow> real" where
  "grid_distance p q = 1000 * (\<bar>fst p - fst q\<bar> + \<bar>snd p - snd q\<bar>)"

definition sample_gateway :: "code_units \<Rightarrow> string \<Rightarrow> gateway_reply" where
  "sample_gateway phone message = (if phone = units ''9876543211'' then Refused else Accepted)"

definition sample_numToString :: "real \<Rightarrow> string" where
  "sample_numToString x = (if x = 13 then ''13'' else if x = 77 then ''77'' else ''90'')"

definition sample_env :: env where
  "sample_env =
     \<lparr>e_now = 5000, e_newId = 2, e_geoFails = False,
      e_geoDistance = grid_distance,
      e_sms = config_sms,
      e_gateway = sample_gateway,
      e_numToString = sample_numToString\<rparr>"

definition keyed_env :: env where
  "keyed_env = sample_env\<lparr>e_sms := Some \<lparr>fast2smsApiKey = Some ''key''\<rparr>\<rparr>"

text \<open>A store with a third, more distant volunteer listed first and a fourth who is
  verified and active but off duty, at the place of the request.\<close>

definition vol_c :: volunteer where
  "vol_c = vol_b\<lparr>v_id := 12, v_user := 102, v_currentLocation := Some (78, 13)\<rparr>"

definition vol_d :: volunteer where
  "vol_d = vol_a\<lparr>v_id := 14, v_user := 104, v_isOnDuty := False\<rparr>"

definition match_world :: world where
  "match_world = sample_world\<lparr>volunteers := [vol_c, vol_d, vol_a, vol_b]\<rparr>"

text \<open>The same request from the equator.\<close>

definition equator_body :: create_body where
  "equator_body = \<lparr>cb_latitude = Some 0, cb_longitude = Some 77, cb_address = None,
                   cb_message = None, cb_type = None\<rparr>"

text \<open>A volunteer who has registered at time 100, has been verified and has gone on duty
  at time 300 without ever sending a position, another one who has registered and been
  verified but has not gone on duty, a store that holds these two, and a create request
  from latitude 13, longitude 90.\<close>

definition vol_new :: volunteer where
  "vol_new = toggleDuty 300 (verifyVolunteer (registerVolunteer 100 13 103))"

definition vol_off :: volunteer where
  "vol_off = verifyVolunteer (registerVolunteer 200 15 105)"

definition unlocated_world :: world where
  "unlocated_world = \<lparr>alerts = [], volunteers = [vol_off, vol_new], contacts = []\<rparr>"

definition far_body :: create_body where
  "far_body = \<lparr>cb_latitude = Some 13, cb_longitude = Some 90, cb_address = None,
               cb_message = None, cb_type = None\<rparr>"

section \<open>Reputation engine: badges\<close>

lemma snd_if_same: "snd (if c then (a, x) else (b, x)) = x"
  by simp

lemma fst_if_pair: "fst (if c then (a, x) else (b, y)) = (if c then a else b)"
  by simp

lemma checkBadges_snd: "snd (checkBadges now v) = awards now v"
  unfolding checkBadges_def Let_def awards_def award_def conj_assoc
  by (rule snd_if_same)

lemma checkBadges_fst:
  "fst (checkBadges now v) =
     (if awards now v = [] then v
      else v\<lparr>v_badges := v_badges v @ awards now v, v_updatedAt := now\<rparr>)"
proof -
  have "fst (checkBadges now v) =
     (if length (awards now v) > 0
      then v\<lparr>v_badges := v_badges v @ awards now v, v_updatedAt := now\<rparr> else v)"
    unfolding checkBadges_def Let_def awards_def award_def conj_assoc
    by (rule fst_if_pair)
  then show ?thesis by simp
qed

lemma has_badge_iff: "has_badge v n \<longleftrightarrow> n \<in> b_name ` set (v_badges v)"
  by (auto simp: has_badge_def find_None_iff)

lemma award_names: "map b_name (award c n i now v) = (if c \<and> \<not> has_badge v n then [n] else [])"
  by (simp add: award_def new_badge_def)

lemma award_mem: "x \<in> b_name ` set (award c n i now v) \<longleftrightarrow> x = n \<and> c \<and> \<not> has_badge v n"
  by (auto simp: award_def new_badge_def)

lemma awards_fresh: "n \<in> b_name ` set (awards now v) \<Longrightarrow> \<not> has_badge v n"
  by (auto simp: awards_def image_Un award_mem)

lemma has_badge_after:
  "has_badge (fst (checkBadges now v)) n \<longleftrightarrow> has_badge v n \<or> n \<in> b_name ` set (awards now v)"
  by (auto simp: checkBadges_fst has_badge_iff)

lemma stats_after: "v_stats (fst (checkBadges now v)) = v_stats v"
  by (simp add: checkBadges_fst)

lemma id_after: "v_id (fst (checkBadges now v)) = v_id v"
  by (simp add: checkBadges_fst)

lemma award_Nil: "(c \<Longrightarrow> has_badge v n) \<Longrightarrow> award c n i now v = []"
  by (auto simp: award_def)

lemma award_again:
  "n \<in> b_name ` set (award c n i t1 v) \<or> has_badge v n \<or> \<not> c"
  by (simp only: award_mem) blast

lemma awards_second: "awards t2 (fst (checkBadges t1 v)) = []"
proof -
  let ?v = "fst (checkBadges t1 v)"
  have step: "award c n i t2 ?v = []"
    if "n \<in> b_name ` set (awards t1 v) \<or> has_badge v n \<or> \<not> c" for c n i
    by (rule award_Nil) (use that in \<open>simp only: has_badge_after, blast\<close>)
  have 1: "award (1 \<le> totalResponses (v_stats v)) ''First Responder'' i t2 ?v = []" for i
    by (rule step) (use award_again in \<open>simp only: awards_def set_append image_Un, blast\<close>)
  have 2: "award (10 \<le> successfulAssists (v_stats v)) ''10 Assists'' i t2 ?v = []" for i
    by (rule step) (use award_again in \<open>simp only: awards_def set_append image_Un, blast\<close>)
  have 3: "award (25 \<le> successfulAssists (v_stats v)) ''25 Assists'' i t2 ?v = []" for i
    by (rule step) (use award_again in \<open>simp only: awards_def set_append image_Un, blast\<close>)
  have 4: "award (50 \<le> successfulAssists (v_stats v)) ''50 Assists'' i t2 ?v = []" for i
    by (rule step) (use award_again in \<open>simp only: awards_def set_append image_Un, blast\<close>)
  have 5: "award (num_less (avgResponseTime (v_stats v)) 180 \<and> 5 \<le> totalResponses (v_stats v))
             ''Quick Responder'' i t2 ?v = []" for i
    by (rule step) (use award_again in \<open>simp only: awards_def set_append image_Un, blast\<close>)
  show ?thesis
    unfolding awards_def[of t2] stats_after 1 2 3 4 5 by simp
qed

lemma checkBadges_twice: "checkBadges t2 (fst (checkBadges t1 v)) = (fst (checkBadges t1 v), [])"
  by (simp add: prod_eq_iff checkBadges_snd checkBadges_fst[of t2] awards_second)

lemma badges_after: "v_badges (fst (checkBadges now v)) = v_badges v @ awards now v"
  by (simp add: checkBadges_fst)

lemma distinct_award_app:
  "distinct (map b_name (award c n i now v) @ xs) \<longleftrightarrow>
     distinct xs \<and> (c \<and> \<not> has_badge v n \<longrightarrow> n \<notin> set xs)"
  by (auto simp: award_names)

lemma set_award_app:
  "x \<in> set (map b_name (award c n i now v) @ xs) \<longleftrightarrow>
     (x = n \<and> c \<and> \<not> has_badge v n) \<or> x \<in> set xs"
  by (auto simp: award_names)

lemma set_award0:
  "x \<in> set (map b_name (award c n i now v)) \<longleftrightarrow> (x = n \<and> c \<and> \<not> has_badge v n)"
  by (auto simp: award_names)

lemma distinct_award0: "distinct (map b_name (award c n i now v))"
  by (auto simp: award_names)

lemma awards_distinct: "distinct (map b_name (awards now v))"
  unfolding awards_def map_append distinct_award_app set_award_app set_award0
  by (simp add: distinct_award0)

lemma count_list_distinct: "distinct xs \<Longrightarrow> x \<in> set xs \<Longrightarrow> count_list xs x = 1"
  by (induction xs) auto

lemma badges_distinct_after:
  assumes "distinct (map b_name (v_badges v))"
  shows "distinct (map b_name (v_badges (fst (checkBadges now v))))"
proof -
  have "set (map b_name (v_badges v)) \<inter> set (map b_name (awards now v)) = {}"
    using awards_fresh[of _ now v] by (auto simp: has_badge_iff)
  with assms awards_distinct[of now v] show ?thesis
    by (simp add: badges_after)
qed

lemma count_new_badge:
  assumes "b \<in> set (awards now v)"
  shows "count_list (map b_name (v_badges (fst (checkBadges now v)))) (b_name b) = 1"
proof -
  have fresh: "b_name b \<notin> set (map b_name (v_badges v))"
    using awards_fresh[of "b_name b" now v] assms by (auto simp: has_badge_iff)
  have "count_list (map b_name (awards now v)) (b_name b) = 1"
    using assms awards_distinct[of now v] by (intro count_list_distinct) auto
  with fresh show ?thesis
    by (simp add: badges_after count_list_0_iff)
qed

lemma count_old_badge:
  assumes "n \<in> set (map b_name (v_badges v))"
  shows "count_list (map b_name (v_badges (fst (checkBadges now v)))) n
       = count_list (map b_name (v_badges v)) n"
proof -
  have "n \<notin> set (map b_name (awards now v))"
    using awards_fresh[of n now v] assms by (auto simp: has_badge_iff)
  then show ?thesis
    by (simp add: badges_after count_list_0_iff)
qed

lemma updateStats_badges: "v_badges (updateStats now rt ok r v) = v_badges v"
  by (simp add: updateStats_def Let_def split: option.split)

lemma updateStats_id: "v_id (updateStats now rt ok r v) = v_id v"
  by (simp add: updateStats_def Let_def split: option.split)

lemma awards_vol_100:
  "map b_name (awards now vol_100) =
     [''First Responder'', ''10 Assists'', ''25 Assists'', ''50 Assists'', ''Quick Responder'']"
  by (simp add: awards_def award_names vol_100_def vol_b_def has_badge_def num_less_def)

lemma awards_vol_170: "map b_name (awards now vol_170) =
     [''First Responder'', ''Quick Responder'']"
  by (simp add: awards_def award_names vol_170_def vol_b_def has_badge_def num_less_def)

lemma awards_vol_181: "map b_name (awards now vol_181) = [''First Responder'']"
  by (simp add: awards_def award_names vol_181_def vol_b_def has_badge_def num_less_def)

text \<open>What \<open>checkBadges\<close> does award (the part of C8 that the code meets): First Responder
  exactly when there is at least one response, the 10, 25 and 50 assists badges at their
  thresholds, Quick Responder exactly when the average is below 180 s with at least five
  responses, each only if not held yet; 170 s earns Quick Responder, 181 s does not.\<close>

lemma checkBadges_awards:
  "(''First Responder'' \<in> b_name ` set (snd (checkBadges now v)) \<longleftrightarrow>
       totalResponses (v_stats v) \<ge> 1 \<and> \<not> has_badge v ''First Responder'')
   \<and> (''10 Assists'' \<in> b_name ` set (snd (checkBadges now v)) \<longleftrightarrow>
       successfulAssists (v_stats v) \<ge> 10 \<and> \<not> has_badge v ''10 Assists'')
   \<and> (''25 Assists'' \<in> b_name ` set (snd (checkBadges now v)) \<longleftrightarrow>
       successfulAssists (v_stats v) \<ge> 25 \<and> \<not> has_badge v ''25 Assists'')
   \<and> (''50 Assists'' \<in> b_name ` set (snd (checkBadges now v)) \<longleftrightarrow>
       successfulAssists (v_stats v) \<ge> 50 \<and> \<not> has_badge v ''50 Assists'')
   \<and> (''Quick Responder'' \<in> b_name ` set (snd (checkBadges now v)) \<longleftrightarrow>
       num_less (avgResponseTime (v_stats v)) 180 \<and> totalResponses (v_stats v) \<ge> 5
       \<and> \<not> has_badge v ''Quick Responder'')
   \<and> map b_name (snd (checkBadges now vol_170)) = [''First Responder'', ''Quick Responder'']
   \<and> map b_name (snd (checkBadges now vol_181)) = [''First Responder'']"
  unfolding checkBadges_snd awards_vol_170 awards_vol_181
  by (simp add: awards_def image_Un award_mem)

text \<open>C8. The badge check has no badge for the threshold of 100 successful assists: a
  volunteer with 100 responses and 100 successful assists (and no badge yet) is awarded
  First Responder, the 10, 25 and 50 assists badges and Quick Responder, and nothing else;
  a second check awards nothing more.\<close>

theorem checkBadges_hundred_assists:
  "successfulAssists (v_stats vol_100) = 100
   \<and> map b_name (snd (checkBadges now vol_100)) =
       [''First Responder'', ''10 Assists'', ''25 Assists'', ''50 Assists'', ''Quick Responder'']
   \<and> snd (checkBadges later (fst (checkBadges now vol_100))) = []"
  unfolding checkBadges_snd awards_vol_100 awards_second
  by (simp add: vol_100_def)

section \<open>Store access\<close>

lemma find_id: "find (\<lambda>d. f d = i) xs = Some a \<Longrightarrow> f a = i \<and> a \<in> set xs"
  by (induction xs) (auto split: if_splits)

lemma find_replace_same:
  "f x = j \<Longrightarrow> find (\<lambda>d. f d = j) (map (\<lambda>d. if f d = j then x else d) xs)
      = map_option (\<lambda>_. x) (find (\<lambda>d. f d = j) xs)"
  by (induction xs) auto


lemma findAlert_id: "findAlert w i = Some a \<Longrightarrow> a_id a = i"
  unfolding findAlert_def by (drule find_id) simp

lemma findAlert_saveAlert_same:
  "findAlert w (a_id a) = Some a0 \<Longrightarrow> findAlert (saveAlert now a w) (a_id a) = Some (a\<lparr>a_updatedAt := now\<rparr>)"
  unfolding findAlert_def saveAlert_def
  using find_replace_same[of a_id "a\<lparr>a_updatedAt := now\<rparr>" "a_id a" "alerts w"]
  by simp


lemma volunteers_saveAlert: "volunteers (saveAlert now a w) = volunteers w"
  by (simp add: saveAlert_def)

lemma contacts_saveAlert: "contacts (saveAlert now a w) = contacts w"
  by (simp add: saveAlert_def)

lemma findAlert_storeVolunteer: "findAlert (storeVolunteer v w) i = findAlert w i"
  by (simp add: findAlert_def storeVolunteer_def)

lemma findVolunteerByUser_saveAlert: "findVolunteerByUser (saveAlert now a w) uid = findVolunteerByUser w uid"
  by (simp add: findVolunteerByUser_def saveAlert_def)

lemma findVolunteerById_saveAlert: "findVolunteerById (saveAlert now a w) i = findVolunteerById w i"
  by (simp add: findVolunteerById_def saveAlert_def)

lemma findVolunteerById_storeVolunteer_same:
  "findVolunteerById w (v_id v) = Some v0 \<Longrightarrow> findVolunteerById (storeVolunteer v w) (v_id v) = Some v"
  unfolding findVolunteerById_def storeVolunteer_def
  using find_replace_same[of v_id v "v_id v" "volunteers w"]
  by simp

section \<open>Accepting an alert\<close>

lemma setEntryStatus_split:
  "findEntry vid es = Some e \<Longrightarrow>
     \<exists>pre post. es = pre @ e # post \<and> (\<forall>x\<in>set pre. nv_volunteer x \<noteq> vid)
        \<and> setEntryStatus vid st es = pre @ e\<lparr>nv_status := st\<rparr> # post"
proof (induction es)
  case Nil
  then show ?case by (simp add: findEntry_def)
next
  case (Cons x xs)
  show ?case
  proof (cases "nv_volunteer x = vid")
    case True
    with Cons.prems have "x = e" by (simp add: findEntry_def)
    with True have "x # xs = [] @ e # xs \<and> (\<forall>y\<in>set []. nv_volunteer y \<noteq> vid)
        \<and> setEntryStatus vid st (x # xs) = [] @ e\<lparr>nv_status := st\<rparr> # xs"
      by simp
    then show ?thesis by blast
  next
    case False
    with Cons.prems have "findEntry vid xs = Some e" by (simp add: findEntry_def)
    from Cons.IH[OF this] obtain pre post where
      p: "xs = pre @ e # post" "\<forall>y\<in>set pre. nv_volunteer y \<noteq> vid"
         "setEntryStatus vid st xs = pre @ e\<lparr>nv_status := st\<rparr> # post"
      by blast
    with False have "x # xs = (x # pre) @ e # post \<and> (\<forall>y\<in>set (x # pre). nv_volunteer y \<noteq> vid)
        \<and> setEntryStatus vid st (x # xs) = (x # pre) @ e\<lparr>nv_status := st\<rparr> # post"
      by simp
    then show ?thesis by blast
  qed
qed

lemma accept_not_active:
  "findAlert w i = Some a \<Longrightarrow> a_status a \<noteq> active \<Longrightarrow>
     acceptAlert now u i w = (w, Response 400 False ''Alert is no longer active'')"
  by (simp add: acceptAlert_def)

lemma accept_no_profile:
  "findAlert w i = Some a \<Longrightarrow> a_status a = active \<Longrightarrow> findVolunteerByUser w (u_id u) = None \<Longrightarrow>
     acceptAlert now u i w = (w, Response 403 False ''Volunteer profile not found'')"
  by (simp add: acceptAlert_def)

lemma accept_not_notified:
  "findAlert w i = Some a \<Longrightarrow> a_status a = active \<Longrightarrow> findVolunteerByUser w (u_id u) = Some vol \<Longrightarrow>
   findEntry (v_id vol) (a_notifiedVolunteers a) = None \<Longrightarrow>
     acceptAlert now u i w = (w, Response 403 False ''You were not notified for this alert'')"
  by (simp add: acceptAlert_def)

lemma accept_ok:
  "findAlert w i = Some a \<Longrightarrow> a_status a = active \<Longrightarrow> findVolunteerByUser w (u_id u) = Some vol \<Longrightarrow>
   findEntry (v_id vol) (a_notifiedVolunteers a) = Some e \<Longrightarrow>
     acceptAlert now u i w =
       (w\<lparr>alerts := map (\<lambda>d. if a_id d = i then
            a\<lparr>a_status := responding,
              a_respondingVolunteer :=
                \<lparr>rv_volunteer = Some (v_id vol), rv_acceptedAt = Some now, rv_distance = nv_distance e\<rparr>,
              a_responseTime := Some ((now - a_createdAt a) div 1000),
              a_notifiedVolunteers := setEntryStatus (v_id vol) accepted (a_notifiedVolunteers a),
              a_timeline := a_timeline a @
                [\<lparr>t_action = ''accepted'',
                  t_description = ''Volunteer '' @ u_name u @ '' accepted the alert'',
                  t_performedBy = u_id u, t_timestamp = now\<rparr>],
              a_updatedAt := now\<rparr>
            else d) (alerts w)\<rparr>,
        Response 200 True ''Alert accepted successfully'')"
  by (frule findAlert_id)
     (simp add: acceptAlert_def Let_def calculateResponseTime_def
        addTimelineEntry_def saveAlert_def)

lemma accept_code:
  assumes "findAlert w i = Some a"
  shows "rcode (snd (acceptAlert now u i w)) = 200 \<longleftrightarrow>
       a_status a = active \<and>
       (\<exists>vol. findVolunteerByUser w (u_id u) = Some vol
              \<and> findEntry (v_id vol) (a_notifiedVolunteers a) \<noteq> None)"
proof (cases "a_status a = active")
  case False
  with assms show ?thesis by (simp add: accept_not_active)
next
  case act: True
  show ?thesis
  proof (cases "findVolunteerByUser w (u_id u)")
    case None
    with assms act show ?thesis by (simp add: accept_no_profile)
  next
    case (Some vol)
    show ?thesis
    proof (cases "findEntry (v_id vol) (a_notifiedVolunteers a)")
      case None
      with assms act Some show ?thesis by (simp add: accept_not_notified)
    next
      case (Some e)
      with assms act \<open>findVolunteerByUser w (u_id u) = Some vol\<close> show ?thesis
        by (simp add: accept_ok)
    qed
  qed
qed

lemma accept_forbidden:
  assumes "findAlert w i = Some a" "a_status a = active"
    "\<not> (\<exists>vol. findVolunteerByUser w (u_id u) = Some vol
              \<and> findEntry (v_id vol) (a_notifiedVolunteers a) \<noteq> None)"
  shows "fst (acceptAlert now u i w) = w \<and> rcode (snd (acceptAlert now u i w)) = 403"
proof (cases "findVolunteerByUser w (u_id u)")
  case None
  with assms show ?thesis by (simp add: accept_no_profile)
next
  case (Some vol)
  with assms have "findEntry (v_id vol) (a_notifiedVolunteers a) = None" by simp
  with assms Some show ?thesis by (simp add: accept_not_notified)
qed

lemma sample_find [simp]:
  "findAlert sample_world 7 = Some sample_alert"
  "findVolunteerByUser sample_world 100 = Some vol_a"
  "findVolunteerByUser sample_world 101 = Some vol_b"
  "findVolunteerByUser sample_world 200 = None"
  by (simp_all add: findAlert_def findVolunteerByUser_def sample_world_def sample_alert_def
        vol_a_def vol_b_def)

text \<open>C3. For a stored alert, accept answers 200 exactly when the alert is \<open>active\<close> and
  the caller has a volunteer profile with an entry in the notified-volunteers list. If the
  status is not \<open>active\<close> the answer is 400 ``Alert is no longer active'' (the Conflict
  outcome; this check comes first), and if the alert is active but the caller has no
  profile or no entry the answer is 403 (Forbidden); in both cases the store is unchanged.
  On success the stored alert gets status \<open>responding\<close>, the responding volunteer with
  accepted-at time and the entry's distance, the response time in whole seconds, the
  caller's first entry marked \<open>accepted\<close> (all other entries as they were), one more
  timeline entry, and nothing else changes.\<close>

theorem acceptAlert_outcomes:
  assumes "findAlert w i = Some a"
  shows
  "(rcode (snd (acceptAlert now u i w)) = 200 \<longleftrightarrow>
       a_status a = active \<and>
       (\<exists>vol. findVolunteerByUser w (u_id u) = Some vol
              \<and> findEntry (v_id vol) (a_notifiedVolunteers a) \<noteq> None))
   \<and> (a_status a \<noteq> active \<longrightarrow>
         acceptAlert now u i w = (w, Response 400 False ''Alert is no longer active''))
   \<and> (a_status a = active \<and>
        \<not> (\<exists>vol. findVolunteerByUser w (u_id u) = Some vol
              \<and> findEntry (v_id vol) (a_notifiedVolunteers a) \<noteq> None) \<longrightarrow>
         fst (acceptAlert now u i w) = w \<and> rcode (snd (acceptAlert now u i w)) = 403)
   \<and> (\<forall>vol e. a_status a = active \<and> findVolunteerByUser w (u_id u) = Some vol
          \<and> findEntry (v_id vol) (a_notifiedVolunteers a) = Some e \<longrightarrow>
         acceptAlert now u i w =
           (w\<lparr>alerts := map (\<lambda>d. if a_id d = i then
                a\<lparr>a_status := responding,
                  a_respondingVolunteer :=
                    \<lparr>rv_volunteer = Some (v_id vol), rv_acceptedAt = Some now,
                     rv_distance = nv_distance e\<rparr>,
                  a_responseTime := Some ((now - a_createdAt a) div 1000),
                  a_notifiedVolunteers :=
                    setEntryStatus (v_id vol) accepted (a_notifiedVolunteers a),
                  a_timeline := a_timeline a @
                    [\<lparr>t_action = ''accepted'',
                      t_description = ''Volunteer '' @ u_name u @ '' accepted the alert'',
                      t_performedBy = u_id u, t_timestamp = now\<rparr>],
                  a_updatedAt := now\<rparr>
                else d) (alerts w)\<rparr>,
            Response 200 True ''Alert accepted successfully'')
         \<and> (\<exists>pre post. a_notifiedVolunteers a = pre @ e # post
               \<and> (\<forall>x\<in>set pre. nv_volunteer x \<noteq> v_id vol)
               \<and> setEntryStatus (v_id vol) accepted (a_notifiedVolunteers a)
                   = pre @ e\<lparr>nv_status := accepted\<rparr> # post))"
proof (intro conjI allI impI)
  show "rcode (snd (acceptAlert now u i w)) = 200 \<longleftrightarrow>
       a_status a = active \<and>
       (\<exists>vol. findVolunteerByUser w (u_id u) = Some vol
              \<and> findEntry (v_id vol) (a_notifiedVolunteers a) \<noteq> None)"
    by (rule accept_code[OF assms])
next
  assume "a_status a \<noteq> active"
  then show "acceptAlert now u i w = (w, Response 400 False ''Alert is no longer active'')"
    by (rule accept_not_active[OF assms])
next
  assume h: "a_status a = active \<and>
        \<not> (\<exists>vol. findVolunteerByUser w (u_id u) = Some vol
              \<and> findEntry (v_id vol) (a_notifiedVolunteers a) \<noteq> None)"
  from accept_forbidden[OF assms, of u now] h
  show "fst (acceptAlert now u i w) = w" by blast
  from accept_forbidden[OF assms, of u now] h
  show "rcode (snd (acceptAlert now u i w)) = 403" by blast
next
  fix vol e
  assume h: "a_status a = active \<and> findVolunteerByUser w (u_id u) = Some vol
          \<and> findEntry (v_id vol) (a_notifiedVolunteers a) = Some e"
  then show "acceptAlert now u i w =
           (w\<lparr>alerts := map (\<lambda>d. if a_id d = i then
                a\<lparr>a_status := responding,
                  a_respondingVolunteer :=
                    \<lparr>rv_volunteer = Some (v_id vol), rv_acceptedAt = Some now,
                     rv_distance = nv_distance e\<rparr>,
                  a_responseTime := Some ((now - a_createdAt a) div 1000),
                  a_notifiedVolunteers :=
                    setEntryStatus (v_id vol) accepted (a_notifiedVolunteers a),
                  a_timeline := a_timeline a @
                    [\<lparr>t_action = ''accepted'',
                      t_description = ''Volunteer '' @ u_name u @ '' accepted the alert'',
                      t_performedBy = u_id u, t_timestamp = now\<rparr>],
                  a_updatedAt := now\<rparr>
                else d) (alerts w)\<rparr>,
            Response 200 True ''Alert accepted successfully'')"
    using accept_ok[OF assms, of u vol e now] by blast
  from h show "\<exists>pre post. a_notifiedVolunteers a = pre @ e # post
               \<and> (\<forall>x\<in>set pre. nv_volunteer x \<noteq> v_id vol)
               \<and> setEntryStatus (v_id vol) accepted (a_notifiedVolunteers a)
                   = pre @ e\<lparr>nv_status := accepted\<rparr> # post"
    using setEntryStatus_split[of "v_id vol" "a_notifiedVolunteers a" e accepted] by blast
qed

lemma sample_entries:
  "findEntry 10 (a_notifiedVolunteers sample_alert)
     = Some \<lparr>nv_volunteer = 10, nv_notifiedAt = 1000, nv_distance = Some 0, nv_status = notified\<rparr>"
  "findEntry 11 (a_notifiedVolunteers sample_alert)
     = Some \<lparr>nv_volunteer = 11, nv_notifiedAt = 1000, nv_distance = None, nv_status = notified\<rparr>"
  by (simp_all add: findEntry_def sample_alert_def)

lemma sample_ids [simp]:
  "v_id vol_a = 10" "v_id vol_b = 11" "u_id caller_a = 100" "u_id caller_b = 101" "u_id owner = 200"
  "a_status sample_alert = active" "a_id sample_alert = 7" "a_createdAt sample_alert = 1000"
  by (simp_all add: vol_a_def vol_b_def caller_a_def caller_b_def owner_def sample_alert_def)

lemma sample_names [simp]:
  "u_name caller_a = ''A''" "u_name caller_b = ''B''" "alerts sample_world = [sample_alert]"
  by (simp_all add: caller_a_def caller_b_def sample_world_def)

lemma find_alerts_upd [simp]:
  "findVolunteerByUser (w\<lparr>alerts := x\<rparr>) uid = findVolunteerByUser w uid"
  "findVolunteerById (w\<lparr>alerts := x\<rparr>) i = findVolunteerById w i"
  "findAlert (w\<lparr>alerts := x\<rparr>) i = find (\<lambda>a. a_id a = i) x"
  by (simp_all add: findVolunteerByUser_def findVolunteerById_def findAlert_def)

theorem acceptAlert_outcomes_witness:
  "findAlert sample_world 7 = Some sample_alert
   \<and> rcode (snd (acceptAlert 61000 caller_a 7 sample_world)) = 200
   \<and> statusOf (fst (acceptAlert 61000 caller_a 7 sample_world)) 7 = Some responding
   \<and> respondingOf (fst (acceptAlert 61000 caller_a 7 sample_world)) 7 = Some (Some 10)
   \<and> acceptAlert 62000 caller_b 7 (fst (acceptAlert 61000 caller_a 7 sample_world))
        = (fst (acceptAlert 61000 caller_a 7 sample_world),
           Response 400 False ''Alert is no longer active'')
   \<and> fst (acceptAlert 61000 owner 7 sample_world) = sample_world
   \<and> rcode (snd (acceptAlert 61000 owner 7 sample_world)) = 403"
proof -
  note T = acceptAlert_outcomes[OF sample_find(1), of 61000 caller_a]
  have pre: "a_status sample_alert = active
      \<and> findVolunteerByUser sample_world (u_id caller_a) = Some vol_a
      \<and> findEntry (v_id vol_a) (a_notifiedVolunteers sample_alert)
          = Some \<lparr>nv_volunteer = 10, nv_notifiedAt = 1000, nv_distance = Some 0, nv_status = notified\<rparr>"
    by (simp add: sample_entries)
  note eq = T[THEN conjunct2, THEN conjunct2, THEN conjunct2, rule_format, OF pre, THEN conjunct1]
  have c: "rcode (snd (acceptAlert 61000 caller_a 7 sample_world)) = 200"
    unfolding eq by simp
  have st: "statusOf (fst (acceptAlert 61000 caller_a 7 sample_world)) 7 = Some responding"
    unfolding eq by (simp add: statusOf_def)
  have rv: "respondingOf (fst (acceptAlert 61000 caller_a 7 sample_world)) 7 = Some (Some 10)"
    unfolding eq by (simp add: respondingOf_def)
  from st obtain a' where a': "findAlert (fst (acceptAlert 61000 caller_a 7 sample_world)) 7 = Some a'"
      "a_status a' = responding"
    by (auto simp: statusOf_def)
  from a'(2) have na: "a_status a' \<noteq> active" by simp
  note second = acceptAlert_outcomes[OF a'(1), of 62000 caller_b, THEN conjunct2, THEN conjunct1,
      rule_format, OF na]
  have pre_o: "a_status sample_alert = active \<and>
        \<not> (\<exists>vol. findVolunteerByUser sample_world (u_id owner) = Some vol
              \<and> findEntry (v_id vol) (a_notifiedVolunteers sample_alert) \<noteq> None)"
    by simp
  note forb = acceptAlert_outcomes[OF sample_find(1), of 61000 owner, THEN conjunct2, THEN conjunct2,
      THEN conjunct1, rule_format, OF pre_o]
  from sample_find(1) c st rv second forb show ?thesis
    by (intro conjI) simp_all
qed

section \<open>Terminal states\<close>



lemma statusOf_storeVolunteer [simp]: "statusOf (storeVolunteer v w) i = statusOf w i"
  by (simp add: statusOf_def findAlert_storeVolunteer)




lemma alert_method_ids [simp]:
  "a_id (calculateTotalDuration a) = a_id a"
  "a_status (calculateTotalDuration a) = a_status a"
  "a_id (calculateResponseTime a) = a_id a"
  "a_status (calculateResponseTime a) = a_status a"
  "a_id (addTimelineEntry now ac de pb a) = a_id a"
  "a_status (addTimelineEntry now ac de pb a) = a_status a"
  by (simp_all add: calculateTotalDuration_def calculateResponseTime_def addTimelineEntry_def
        split: option.split)







lemma sample_alert_fields [simp]:
  "a_user sample_alert = 200"
  "a_respondingVolunteer sample_alert = \<lparr>rv_volunteer = None, rv_acceptedAt = None, rv_distance = None\<rparr>"
  "u_role owner = role_user" "u_role caller_a = role_volunteer" "u_role caller_b = role_volunteer"
  by (simp_all add: sample_alert_def owner_def caller_a_def caller_b_def)




section \<open>Ratings at resolution and at feedback\<close>

lemma find_distinct:
  "distinct (map f xs) \<Longrightarrow> x \<in> set xs \<Longrightarrow> find (\<lambda>y. f y = f x) xs = Some x"
  by (induction xs) (auto simp: image_iff)

lemma find_in_set: "find P xs = Some x \<Longrightarrow> x \<in> set xs"
  by (induction xs) (auto split: if_splits)

lemma findVolunteerById_of_user:
  assumes "findVolunteerByUser w uid = Some vol" "distinct (map v_id (volunteers w))"
  shows "findVolunteerById w (v_id vol) = Some vol"
proof -
  from assms(1) have "vol \<in> set (volunteers w)"
    unfolding findVolunteerByUser_def by (rule find_in_set)
  with assms(2) show ?thesis
    unfolding findVolunteerById_def by (rule find_distinct)
qed

lemma findVolunteerById_storeVolunteer_same':
  "findVolunteerById w i = Some v0 \<Longrightarrow> v_id v = i \<Longrightarrow> findVolunteerById (storeVolunteer v w) i = Some v"
  using findVolunteerById_storeVolunteer_same[of w v v0] by simp

lemma findAlert_saveAlert_same':
  "findAlert w i = Some a0 \<Longrightarrow> a_id a = i \<Longrightarrow>
     findAlert (saveAlert now a w) i = Some (a\<lparr>a_updatedAt := now\<rparr>)"
  using findAlert_saveAlert_same[of w a a0 now] by simp

lemma resolve_by_responder:
  assumes "findAlert w i = Some a"
    and "findVolunteerByUser w (u_id u) = Some vol"
    and "rv_volunteer (a_respondingVolunteer a) = Some (v_id vol)"
  shows "resolveAlert now u i body w =
     (storeVolunteer (fst (checkBadges now (updateStats now (a_responseTime a) True (rb_rating body) vol)))
        (saveAlert now
           (a\<lparr>a_status := resolved,
              a_resolution := \<lparr>r_resolvedBy = Some (u_id u), r_resolvedAt = Some now,
                  r_notes = rb_notes body, r_rating = rb_rating body, r_feedback = rb_feedback body\<rparr>,
              a_totalDuration := Some ((now - a_createdAt a) div 1000),
              a_timeline := a_timeline a @
                [\<lparr>t_action = ''resolved'', t_description = ''Alert resolved'',
                  t_performedBy = u_id u, t_timestamp = now\<rparr>]\<rparr>) w),
      Response 200 True ''Alert resolved successfully'')"
  using assms
  by (simp add: resolveAlert_def Let_def calculateTotalDuration_def addTimelineEntry_def)

lemma feedback_ok:
  assumes "findAlert w i = Some a" "a_user a = u_id u" "a_status a = resolved"
    and "fb_rating fb = Some r" "1 \<le> r" "r \<le> 5"
    and "rv_volunteer (a_respondingVolunteer a) = Some vid"
    and "findVolunteerById w vid = Some v"
  shows "submitFeedback now u i fb w =
     (storeVolunteer (fst (checkBadges now (v\<lparr>v_stats := add_rating r (v_stats v), v_updatedAt := now\<rparr>)))
        (saveAlert now
           (a\<lparr>a_resolution := (a_resolution a)
               \<lparr>r_rating := Some r,
                r_feedback := Some (case fb_feedback fb of None \<Rightarrow> [] | Some f \<Rightarrow> f)\<rparr>\<rparr>) w),
      Response 200 True ''Thank you for your feedback!'')"
  using assms
  by (simp add: submitFeedback_def Let_def findVolunteerById_saveAlert)

lemma feedback_no_rating:
  assumes "findAlert w i = Some a" "a_user a = u_id u" "a_status a = resolved"
    and "fb_rating fb = None"
  shows "submitFeedback now u i fb w = (w, Response 400 False ''Rating must be between 1 and 5'')"
  using assms by (simp add: submitFeedback_def)

lemma updateStats_rating:
  "r \<noteq> 0 \<Longrightarrow>
   totalRatings (v_stats (updateStats now rt ok (Some r) v)) = totalRatings (v_stats v) + 1
   \<and> rating (v_stats (updateStats now rt ok (Some r) v))
       = (rating (v_stats v) * real (totalRatings (v_stats v)) + r) / real (totalRatings (v_stats v) + 1)"
  by (simp add: updateStats_def Let_def add_rating_def)

lemma add_rating_twice:
  "totalRatings (add_rating r2 (add_rating r1 s)) = totalRatings s + 2
   \<and> rating (add_rating r2 (add_rating r1 s))
       = (rating s * real (totalRatings s) + r1 + r2) / real (totalRatings s + 2)"
proof -
  have "(rating s * real (totalRatings s) + r1) / real (totalRatings s + 1) * real (totalRatings s + 1)
          = rating s * real (totalRatings s) + r1"
    by simp
  then show ?thesis
    by (simp add: add_rating_def Let_def)
qed

lemma add_rating_sel:
  "totalRatings (add_rating r s) = totalRatings s + 1"
  "rating (add_rating r s) = (rating s * real (totalRatings s) + r) / real (totalRatings s + 1)"
  by (simp_all add: add_rating_def Let_def)

text \<open>C10. When the responding volunteer resolves an alert with a (non-zero) rating and the
  owner then submits feedback with a rating between 1 and 5, both requests answer 200, the
  volunteer's rating count goes up by one at the resolution and by one more at the feedback,
  and the running average becomes the mean over both samples (in exact arithmetic), while the
  alert's own resolution keeps only the feedback rating. A feedback request without a rating
  is rejected with 400 and changes nothing, although a resolve request without a rating
  is accepted.\<close>

theorem rating_counted_twice:
  assumes "findAlert w i = Some a"
    and "findVolunteerByUser w (u_id uv) = Some vol"
    and "rv_volunteer (a_respondingVolunteer a) = Some (v_id vol)"
    and "distinct (map v_id (volunteers w))"
    and "rb_rating body = Some r1" and "r1 \<noteq> 0"
    and "u_id uo = a_user a"
    and "fb_rating fb = Some r2" and "1 \<le> r2" and "r2 \<le> 5"
  shows
  "rcode (snd (resolveAlert t1 uv i body w)) = 200
   \<and> rcode (snd (submitFeedback t2 uo i fb (fst (resolveAlert t1 uv i body w)))) = 200
   \<and> map_option (\<lambda>v. totalRatings (v_stats v))
        (findVolunteerById (fst (resolveAlert t1 uv i body w)) (v_id vol))
       = Some (totalRatings (v_stats vol) + 1)
   \<and> map_option (\<lambda>v. totalRatings (v_stats v))
        (findVolunteerById (fst (submitFeedback t2 uo i fb (fst (resolveAlert t1 uv i body w)))) (v_id vol))
       = Some (totalRatings (v_stats vol) + 2)
   \<and> map_option (\<lambda>v. rating (v_stats v))
        (findVolunteerById (fst (submitFeedback t2 uo i fb (fst (resolveAlert t1 uv i body w)))) (v_id vol))
       = Some ((rating (v_stats vol) * real (totalRatings (v_stats vol)) + r1 + r2)
               / real (totalRatings (v_stats vol) + 2))
   \<and> map_option (\<lambda>a. r_rating (a_resolution a))
        (findAlert (fst (submitFeedback t2 uo i fb (fst (resolveAlert t1 uv i body w)))) i)
       = Some (Some r2)
   \<and> submitFeedback t2 uo i (fb\<lparr>fb_rating := None\<rparr>) (fst (resolveAlert t1 uv i body w))
       = (fst (resolveAlert t1 uv i body w), Response 400 False ''Rating must be between 1 and 5'')
   \<and> rcode (snd (resolveAlert t1 uv i (body\<lparr>rb_rating := None\<rparr>) w)) = 200"
proof -
  define a3 where "a3 = a\<lparr>a_status := resolved,
              a_resolution := \<lparr>r_resolvedBy = Some (u_id uv), r_resolvedAt = Some t1,
                  r_notes = rb_notes body, r_rating = rb_rating body, r_feedback = rb_feedback body\<rparr>,
              a_totalDuration := Some ((t1 - a_createdAt a) div 1000),
              a_timeline := a_timeline a @
                [\<lparr>t_action = ''resolved'', t_description = ''Alert resolved'',
                  t_performedBy = u_id uv, t_timestamp = t1\<rparr>]\<rparr>"
  define vol1 where
    "vol1 = fst (checkBadges t1 (updateStats t1 (a_responseTime a) True (rb_rating body) vol))"
  define w1 where "w1 = storeVolunteer vol1 (saveAlert t1 a3 w)"
  have res: "resolveAlert t1 uv i body w = (w1, Response 200 True ''Alert resolved successfully'')"
    unfolding w1_def vol1_def a3_def
    by (rule resolve_by_responder[OF assms(1,2,3)])
  have id: "a_id a = i" using assms(1) by (rule findAlert_id)
  have vid1: "v_id vol1 = v_id vol"
    by (simp add: vol1_def id_after updateStats_id)
  have st1: "v_stats vol1 = v_stats (updateStats t1 (a_responseTime a) True (Some r1) vol)"
    by (simp add: vol1_def stats_after assms(5))
  have byid: "findVolunteerById w (v_id vol) = Some vol"
    by (rule findVolunteerById_of_user[OF assms(2,4)])
  have fv1: "findVolunteerById w1 (v_id vol) = Some vol1"
    unfolding w1_def
    by (rule findVolunteerById_storeVolunteer_same'[where ?v0.0 = vol])
       (simp_all add: findVolunteerById_saveAlert byid vid1)
  have fa1: "findAlert w1 i = Some (a3\<lparr>a_updatedAt := t1\<rparr>)"
    unfolding w1_def findAlert_storeVolunteer
    by (rule findAlert_saveAlert_same'[OF assms(1)]) (simp add: a3_def id)
  define a4 where "a4 = (a3\<lparr>a_updatedAt := t1\<rparr>)\<lparr>a_resolution := (a_resolution (a3\<lparr>a_updatedAt := t1\<rparr>))
               \<lparr>r_rating := Some r2,
                r_feedback := Some (case fb_feedback fb of None \<Rightarrow> [] | Some f \<Rightarrow> f)\<rparr>\<rparr>"
  define vol2 where
    "vol2 = fst (checkBadges t2 (vol1\<lparr>v_stats := add_rating r2 (v_stats vol1), v_updatedAt := t2\<rparr>))"
  define w2 where "w2 = storeVolunteer vol2 (saveAlert t2 a4 w1)"
  have fb: "submitFeedback t2 uo i fb w1 = (w2, Response 200 True ''Thank you for your feedback!'')"
    unfolding w2_def vol2_def a4_def
    by (rule feedback_ok[OF fa1 _ _ assms(8,9,10) _ fv1])
       (simp_all add: a3_def assms(7) assms(3))
  have vid2: "v_id vol2 = v_id vol"
    by (simp add: vol2_def id_after vid1)
  have st2: "v_stats vol2 = add_rating r2 (v_stats vol1)"
    by (simp add: vol2_def stats_after)
  have fv2: "findVolunteerById w2 (v_id vol) = Some vol2"
    unfolding w2_def
    by (rule findVolunteerById_storeVolunteer_same'[where ?v0.0 = vol1])
       (simp_all add: findVolunteerById_saveAlert fv1 vid2)
  have fa2: "findAlert w2 i = Some (a4\<lparr>a_updatedAt := t2\<rparr>)"
    unfolding w2_def findAlert_storeVolunteer
    by (rule findAlert_saveAlert_same'[OF fa1]) (simp add: a4_def a3_def id)
  note us = updateStats_rating[OF assms(6), of t1 "a_responseTime a" True vol]
  have n1: "totalRatings (v_stats vol1) = totalRatings (v_stats vol) + 1"
    using us by (simp add: st1)
  have n2: "totalRatings (v_stats vol2) = totalRatings (v_stats vol) + 2"
    by (simp add: st2 add_rating_sel n1)
  have rt1: "rating (v_stats vol1)
       = (rating (v_stats vol) * real (totalRatings (v_stats vol)) + r1) / real (totalRatings (v_stats vol) + 1)"
    using us by (simp add: st1)
  have prod1: "rating (v_stats vol1) * real (totalRatings (v_stats vol1))
       = rating (v_stats vol) * real (totalRatings (v_stats vol)) + r1"
    unfolding rt1 n1 by simp
  have "rating (v_stats vol2)
       = (rating (v_stats vol1) * real (totalRatings (v_stats vol1)) + r2)
           / real (totalRatings (v_stats vol1) + 1)"
    unfolding st2 by (rule add_rating_sel(2))
  also have "\<dots> = (rating (v_stats vol) * real (totalRatings (v_stats vol)) + r1 + r2)
           / real (totalRatings (v_stats vol1) + 1)"
    by (simp only: prod1)
  also have "\<dots> = (rating (v_stats vol) * real (totalRatings (v_stats vol)) + r1 + r2)
           / real (totalRatings (v_stats vol) + 2)"
    by (simp add: n1)
  finally have rt2: "rating (v_stats vol2)
       = (rating (v_stats vol) * real (totalRatings (v_stats vol)) + r1 + r2)
           / real (totalRatings (v_stats vol) + 2)" .
  have none: "submitFeedback t2 uo i (fb\<lparr>fb_rating := None\<rparr>) w1
       = (w1, Response 400 False ''Rating must be between 1 and 5'')"
    by (rule feedback_no_rating[OF fa1]) (simp_all add: a3_def assms(7))
  have opt: "rcode (snd (resolveAlert t1 uv i (body\<lparr>rb_rating := None\<rparr>) w)) = 200"
    by (simp add: resolve_by_responder[OF assms(1,2,3)])
  show ?thesis
    unfolding res fst_conv snd_conv fb fv1 fv2 fa2
    using n1 n2 rt2 none opt
    by (simp add: a4_def)
qed

lemma responding_find [simp]:
  "findAlert responding_world 7 = Some responding_alert"
  "findVolunteerByUser responding_world uid = findVolunteerByUser sample_world uid"
  by (simp_all add: responding_world_def responding_alert_def)

lemma responding_volunteers [simp]: "volunteers responding_world = [vol_a, vol_b]"
  by (simp add: responding_world_def sample_world_def)

theorem rating_counted_twice_witness:
  "findAlert responding_world 7 = Some responding_alert
   \<and> findVolunteerByUser responding_world (u_id caller_a) = Some vol_a
   \<and> rv_volunteer (a_respondingVolunteer responding_alert) = Some (v_id vol_a)
   \<and> u_id owner = a_user responding_alert
   \<and> totalRatings (v_stats vol_a) = 2 \<and> rating (v_stats vol_a) = 4
   \<and> map_option (\<lambda>v. totalRatings (v_stats v))
        (findVolunteerById
           (fst (submitFeedback 90000 owner 7 fb3 (fst (resolveAlert 80000 caller_a 7 rate5 responding_world))))
           10) = Some 4
   \<and> map_option (\<lambda>v. rating (v_stats v))
        (findVolunteerById
           (fst (submitFeedback 90000 owner 7 fb3 (fst (resolveAlert 80000 caller_a 7 rate5 responding_world))))
           10) = Some 4
   \<and> map_option (\<lambda>a. r_rating (a_resolution a))
        (findAlert
           (fst (submitFeedback 90000 owner 7 fb3 (fst (resolveAlert 80000 caller_a 7 rate5 responding_world))))
           7) = Some (Some 3)"
proof -
  have h1: "findAlert responding_world 7 = Some responding_alert" by simp
  have h2: "findVolunteerByUser responding_world (u_id caller_a) = Some vol_a" by simp
  have h3: "rv_volunteer (a_respondingVolunteer responding_alert) = Some (v_id vol_a)"
    by (simp add: responding_alert_def)
  have h4: "distinct (map v_id (volunteers responding_world))" by simp
  have h5: "rb_rating rate5 = Some 5" "(5::real) \<noteq> 0" by (simp_all add: rate5_def)
  have h7: "u_id owner = a_user responding_alert" by (simp add: responding_alert_def)
  have h8: "fb_rating fb3 = Some 3" "(1::real) \<le> 3" "(3::real) \<le> 5" by (simp_all add: fb3_def)
  have s: "totalRatings (v_stats vol_a) = 2" "rating (v_stats vol_a) = 4"
    by (simp_all add: vol_a_def)
  note T = rating_counted_twice[OF h1 h2 h3 h4 h5 h7 h8, where ?t1.0 = 80000 and ?t2.0 = 90000]
  from T h1 h2 h3 h7 s show ?thesis by simp
qed

section \<open>Expiry sweeper\<close>

lemma cleanup_ok:
  "cleanupAlerts now False False w =
     (w\<lparr>alerts := filter (\<lambda>a. \<not> a_createdAt a < now - 604800000)
                     (map (\<lambda>a. if isStale (now - 86400000) a then a\<lparr>a_status := expired\<rparr> else a)
                        (alerts w))\<rparr>,
      (if length (filter (isStale (now - 86400000)) (alerts w)) > 0
       then [LogExpired (length (filter (isStale (now - 86400000)) (alerts w)))] else []) @
      (if length (filter (\<lambda>a. a_createdAt a < now - 604800000) (alerts w)) > 0
       then [LogDeleted (length (filter (\<lambda>a. a_createdAt a < now - 604800000) (alerts w)))] else []))"
proof -
  have "filter (\<lambda>a. a_createdAt a < c)
          (map (\<lambda>a. if isStale d a then a\<lparr>a_status := expired\<rparr> else a) xs)
        = map (\<lambda>a. if isStale d a then a\<lparr>a_status := expired\<rparr> else a)
            (filter (\<lambda>a. a_createdAt a < c) xs)" for c d xs
    by (induction xs) auto
  then show ?thesis
    by (simp add: cleanupAlerts_def Let_def)
qed

lemma cleanup_update_fails: "cleanupAlerts now True df w = (w, [LogError])"
  by (simp add: cleanupAlerts_def Let_def)

lemma cleanup_delete_fails:
  "cleanupAlerts now False True w =
     (w\<lparr>alerts := map (\<lambda>a. if isStale (now - 86400000) a then a\<lparr>a_status := expired\<rparr> else a)
                        (alerts w)\<rparr>,
      (if length (filter (isStale (now - 86400000)) (alerts w)) > 0
       then [LogExpired (length (filter (isStale (now - 86400000)) (alerts w)))] else []) @ [LogError])"
  by (simp add: cleanupAlerts_def Let_def)

lemma in_set_map: "x \<in> set xs \<Longrightarrow> f x \<in> set (map f xs)"
  by simp

text \<open>C7. One run of the cleanup job in which both store calls succeed keeps exactly the
  alerts that are not older than 7 days, in order, each with status \<open>expired\<close> if it was
  \<open>pending\<close>, \<open>active\<close> or \<open>responding\<close> and older than 24 hours and untouched otherwise;
  so no alert older than 7 days is left, whatever its status, and an alert created 2 hours
  before is still there as it was. Volunteers and contacts are not touched. If the first
  store call throws, the error is logged and the store is as before; if the second one
  throws, the stale alerts have been expired and the error is logged: the job returns in
  every case. It runs when the server starts to listen and then every 6 hours.\<close>

theorem cleanupAlerts_sweeps:
  "alerts (fst (cleanupAlerts now False False w)) =
     map (\<lambda>a. if (a_status a = active \<or> a_status a = pending \<or> a_status a = responding)
                  \<and> a_createdAt a < now - 24 * 60 * 60 * 1000
               then a\<lparr>a_status := expired\<rparr> else a)
       (filter (\<lambda>a. \<not> a_createdAt a < now - 7 * 24 * 60 * 60 * 1000) (alerts w))
   \<and> (\<forall>a \<in> set (alerts (fst (cleanupAlerts now False False w))).
         \<not> a_createdAt a < now - 7 * 24 * 60 * 60 * 1000)
   \<and> (\<forall>a \<in> set (alerts w).
         (a_status a = active \<or> a_status a = pending \<or> a_status a = responding)
         \<and> a_createdAt a < now - 24 * 60 * 60 * 1000
         \<and> \<not> a_createdAt a < now - 7 * 24 * 60 * 60 * 1000 \<longrightarrow>
           a\<lparr>a_status := expired\<rparr> \<in> set (alerts (fst (cleanupAlerts now False False w))))
   \<and> (\<forall>a \<in> set (alerts w).
         a_createdAt a = now - 2 * 60 * 60 * 1000 \<longrightarrow>
           a \<in> set (alerts (fst (cleanupAlerts now False False w))))
   \<and> volunteers (fst (cleanupAlerts now False False w)) = volunteers w
   \<and> contacts (fst (cleanupAlerts now False False w)) = contacts w
   \<and> cleanupAlerts now True deleteFails w = (w, [LogError])
   \<and> alerts (fst (cleanupAlerts now False True w)) =
        map (\<lambda>a. if (a_status a = active \<or> a_status a = pending \<or> a_status a = responding)
                     \<and> a_createdAt a < now - 24 * 60 * 60 * 1000
                  then a\<lparr>a_status := expired\<rparr> else a) (alerts w)
   \<and> last (snd (cleanupAlerts now False True w)) = LogError
   \<and> cleanupRunAt 0 = 0
   \<and> cleanupRunAt (Suc k) - cleanupRunAt k = 6 * 60 * 60 * 1000"
proof -
  let ?e = "\<lambda>a. if isStale (now - 86400000) a then a\<lparr>a_status := expired\<rparr> else a"
  let ?keep = "\<lambda>a. \<not> a_createdAt a < now - 604800000"
  have comm: "filter ?keep (map ?e xs) = map ?e (filter ?keep xs)" for xs
    by (induction xs) auto
  have A: "alerts (fst (cleanupAlerts now False False w)) = map ?e (filter ?keep (alerts w))"
    by (simp add: cleanup_ok comm)
  have stale: "isStale (now - 86400000) a \<longleftrightarrow>
      (a_status a = active \<or> a_status a = pending \<or> a_status a = responding)
       \<and> a_createdAt a < now - 24 * 60 * 60 * 1000" for a
    by (simp add: isStale_def)
  have 1: "alerts (fst (cleanupAlerts now False False w)) =
     map (\<lambda>a. if (a_status a = active \<or> a_status a = pending \<or> a_status a = responding)
                  \<and> a_createdAt a < now - 24 * 60 * 60 * 1000
               then a\<lparr>a_status := expired\<rparr> else a)
       (filter (\<lambda>a. \<not> a_createdAt a < now - 7 * 24 * 60 * 60 * 1000) (alerts w))"
    unfolding A stale by simp
  have 2: "\<forall>a \<in> set (alerts (fst (cleanupAlerts now False False w))).
         \<not> a_createdAt a < now - 7 * 24 * 60 * 60 * 1000"
    unfolding A by auto
  have 3: "\<forall>a \<in> set (alerts w).
         (a_status a = active \<or> a_status a = pending \<or> a_status a = responding)
         \<and> a_createdAt a < now - 24 * 60 * 60 * 1000
         \<and> \<not> a_createdAt a < now - 7 * 24 * 60 * 60 * 1000 \<longrightarrow>
           a\<lparr>a_status := expired\<rparr> \<in> set (alerts (fst (cleanupAlerts now False False w)))"
  proof (intro ballI impI)
    fix a assume a: "a \<in> set (alerts w)"
      and h: "(a_status a = active \<or> a_status a = pending \<or> a_status a = responding)
         \<and> a_createdAt a < now - 24 * 60 * 60 * 1000
         \<and> \<not> a_createdAt a < now - 7 * 24 * 60 * 60 * 1000"
    from a h have "a \<in> set (filter ?keep (alerts w))" by simp
    then have "?e a \<in> set (map ?e (filter ?keep (alerts w)))" by (rule in_set_map)
    moreover from h have "?e a = a\<lparr>a_status := expired\<rparr>" by (simp add: isStale_def)
    ultimately show "a\<lparr>a_status := expired\<rparr> \<in> set (alerts (fst (cleanupAlerts now False False w)))"
      unfolding A by simp
  qed
  have 4: "\<forall>a \<in> set (alerts w).
         a_createdAt a = now - 2 * 60 * 60 * 1000 \<longrightarrow>
           a \<in> set (alerts (fst (cleanupAlerts now False False w)))"
  proof (intro ballI impI)
    fix a assume a: "a \<in> set (alerts w)" and h: "a_createdAt a = now - 2 * 60 * 60 * 1000"
    from a h have "a \<in> set (filter ?keep (alerts w))" by simp
    then have "?e a \<in> set (map ?e (filter ?keep (alerts w)))" by (rule in_set_map)
    moreover from h have "?e a = a" by (simp add: isStale_def)
    ultimately show "a \<in> set (alerts (fst (cleanupAlerts now False False w)))"
      unfolding A by simp
  qed
  have 5: "volunteers (fst (cleanupAlerts now False False w)) = volunteers w"
      "contacts (fst (cleanupAlerts now False False w)) = contacts w"
    by (simp_all add: cleanup_ok)
  have 6: "cleanupAlerts now True deleteFails w = (w, [LogError])"
    by (rule cleanup_update_fails)
  have 7: "alerts (fst (cleanupAlerts now False True w)) =
        map (\<lambda>a. if (a_status a = active \<or> a_status a = pending \<or> a_status a = responding)
                     \<and> a_createdAt a < now - 24 * 60 * 60 * 1000
                  then a\<lparr>a_status := expired\<rparr> else a) (alerts w)"
    by (simp add: cleanup_delete_fails stale)
  have 8: "last (snd (cleanupAlerts now False True w)) = LogError"
    by (simp add: cleanup_delete_fails)
  have 9: "cleanupRunAt 0 = 0" "cleanupRunAt (Suc k) - cleanupRunAt k = 6 * 60 * 60 * 1000"
    by (simp_all add: cleanupRunAt_def cleanupInterval_def algebra_simps)
  from 1 2 3 4 5 6 7 8 9 show ?thesis by (intro conjI)
qed

theorem cleanupAlerts_sweeps_witness:
  "alert_25h \<in> set (alerts sweep_world) \<and> a_status alert_25h = active
   \<and> a_createdAt alert_25h = 1000000000 - 25 * 60 * 60 * 1000
   \<and> alert_25h\<lparr>a_status := expired\<rparr> \<in> set (alerts (fst (cleanupAlerts 1000000000 False False sweep_world)))
   \<and> alert_2h \<in> set (alerts sweep_world)
   \<and> a_createdAt alert_2h = 1000000000 - 2 * 60 * 60 * 1000
   \<and> alert_2h \<in> set (alerts (fst (cleanupAlerts 1000000000 False False sweep_world)))
   \<and> alert_8d \<in> set (alerts sweep_world)
   \<and> a_createdAt alert_8d = 1000000000 - 8 * 24 * 60 * 60 * 1000
   \<and> alerts (fst (cleanupAlerts 1000000000 False False sweep_world))
       = [alert_25h\<lparr>a_status := expired\<rparr>, alert_2h]"
proof -
  note T = cleanupAlerts_sweeps[of 1000000000 sweep_world False 0]
  have f: "a_status alert_25h = active" "a_status alert_2h = active"
      "a_createdAt alert_25h = 910000000" "a_createdAt alert_8d = 308800000"
      "a_createdAt alert_2h = 992800000" "alerts sweep_world = [alert_25h, alert_8d, alert_2h]"
    by (simp_all add: alert_25h_def alert_8d_def alert_2h_def sweep_world_def)
  have m: "alert_25h \<in> set (alerts sweep_world)" "alert_2h \<in> set (alerts sweep_world)"
      "alert_8d \<in> set (alerts sweep_world)"
    by (simp_all add: f)
  have c25: "(a_status alert_25h = active \<or> a_status alert_25h = pending
               \<or> a_status alert_25h = responding)
         \<and> a_createdAt alert_25h < 1000000000 - 24 * 60 * 60 * 1000
         \<and> \<not> a_createdAt alert_25h < 1000000000 - 7 * 24 * 60 * 60 * 1000"
    by (simp add: f)
  have c2: "a_createdAt alert_2h = 1000000000 - 2 * 60 * 60 * 1000"
    by (simp add: f)
  note e25 = T[THEN conjunct2, THEN conjunct2, THEN conjunct1, rule_format, OF m(1) c25]
  note k2 = T[THEN conjunct2, THEN conjunct2, THEN conjunct2, THEN conjunct1, rule_format, OF m(2) c2]
  have all: "alerts (fst (cleanupAlerts 1000000000 False False sweep_world))
       = [alert_25h\<lparr>a_status := expired\<rparr>, alert_2h]"
    unfolding T[THEN conjunct1] by (simp add: f)
  from m e25 k2 all show ?thesis
    by (simp add: f)
qed

section \<open>Alert creation\<close>

lemma find_append_fresh:
  "\<forall>x\<in>set xs. \<not> P x \<Longrightarrow> find P (xs @ ys) = find P ys"
  by (induction xs) auto

lemma findAlert_appended:
  "i \<notin> a_id ` set (alerts w) \<Longrightarrow> a_id a = i \<Longrightarrow> findAlert (w\<lparr>alerts := alerts w @ [a]\<rparr>) i = Some a"
proof -
  assume f: "i \<notin> a_id ` set (alerts w)" and i: "a_id a = i"
  from f have "\<forall>x\<in>set (alerts w). \<not> a_id x = i" by auto
  then have "find (\<lambda>a. a_id a = i) (alerts w @ [a]) = find (\<lambda>a. a_id a = i) [a]"
    by (rule find_append_fresh)
  with i show ?thesis by (simp add: findAlert_def)
qed

lemma notify_results:
  "fst (notifyEmergencyContacts (e_sms e) (e_gateway e) ns cs u a) =
     map (\<lambda>c. \<lparr>nr_contactId = c_id c, nr_method = sms,
                nr_status = roundStatus e (smsMessage ns u a) c\<rparr>) cs"
  by (simp add: notifyEmergencyContacts_def Let_def comp_def roundStatus_def split: sum.split)

lemma notify_effects:
  "snd (notifyEmergencyContacts (e_sms e) (e_gateway e) ns cs u a) =
     concat (map (roundEffects e (smsMessage ns u a)) cs)"
proof -
  have "(\<lambda>c. snd (case sendSMS (e_sms e) (e_gateway e) (c_phone c) (smsMessage ns u a) of
                  Inl err \<Rightarrow> (\<lparr>nr_contactId = c_id c, nr_method = sms, nr_status = failed\<rparr>, [])
                | Inr smsResult \<Rightarrow>
                    (\<lparr>nr_contactId = c_id c, nr_method = sms,
                      nr_status = (if fst smsResult then sent else failed)\<rparr>, [snd smsResult])))
        = roundEffects e (smsMessage ns u a)"
    by (simp add: fun_eq_iff roundEffects_def split: sum.split)
  then show ?thesis
    by (simp add: notifyEmergencyContacts_def Let_def comp_def)
qed

lemma create_rejects:
  "falsy_num (cb_latitude body) \<or> falsy_num (cb_longitude body) \<Longrightarrow>
     createAlert e u body w =
       \<lparr>cr_world = w, cr_response = Response 400 False ''Location is required'',
        cr_data = None, cr_sms = []\<rparr>"
  by (simp add: createAlert_def)

lemma findNearby_alerts [simp]:
  "findNearbyVolunteers e (w\<lparr>alerts := x\<rparr>) lat lon = findNearbyVolunteers e w lat lon"
  by (simp add: findNearbyVolunteers_def)

lemma contactResults_Nil [simp]: "contactResults e u a [] = []"
  by (simp add: contactResults_def)

lemma create_ok:
  assumes "cb_latitude body = Some lat" "lat \<noteq> 0" "cb_longitude body = Some lon" "lon \<noteq> 0"
  shows "createAlert e u body w =
     \<lparr>cr_world = saveAlert (e_now e)
         ((newAlert e u lat lon body)
            \<lparr>a_notifiedVolunteers :=
               map (notifiedEntryOf (e_now e) lat lon) (findNearbyVolunteers e w lat lon),
             a_notifiedContacts :=
               contactResults e u
                 ((newAlert e u lat lon body)
                    \<lparr>a_notifiedVolunteers :=
                       map (notifiedEntryOf (e_now e) lat lon) (findNearbyVolunteers e w lat lon)\<rparr>)
                 (filter (\<lambda>c. c_user c = u_id u \<and> c_isActive c) (contacts w))\<rparr>)
         (w\<lparr>alerts := alerts w @ [newAlert e u lat lon body]\<rparr>),
      cr_response = Response 201 True ''Emergency alert created successfully'',
      cr_data = Some \<lparr>cd_alertId = e_newId e,
                      cd_volunteersNotified = length (findNearbyVolunteers e w lat lon),
                      cd_contactsNotified =
                        length (filter (\<lambda>c. c_user c = u_id u \<and> c_isActive c) (contacts w))\<rparr>,
      cr_sms = concat (map (roundEffects e
                 (smsMessage (e_numToString e) u
                   ((newAlert e u lat lon body)
                      \<lparr>a_notifiedVolunteers :=
                         map (notifiedEntryOf (e_now e) lat lon) (findNearbyVolunteers e w lat lon)\<rparr>)))
                 (filter (\<lambda>c. c_user c = u_id u \<and> c_isActive c) (contacts w)))\<rparr>"
proof (cases "filter (\<lambda>c. c_user c = u_id u \<and> c_isActive c) (contacts w) = []")
  case True
  with assms show ?thesis
    by (simp add: createAlert_def falsy_num_def Let_def newAlert_def)
next
  case False
  with assms show ?thesis
    by (simp add: createAlert_def falsy_num_def Let_def notify_results notify_effects
          contactResults_def comp_def)
       (simp add: newAlert_def)
qed

lemma smsMessage_new:
  "smsMessage ns u ((newAlert e u lat lon body)\<lparr>a_notifiedVolunteers := x\<rparr>) = smsText ns (u_name u) lat lon"
  by (simp add: smsMessage_def smsText_def newAlert_def Let_def)

lemma created_stored:
  assumes "cb_latitude body = Some lat" "lat \<noteq> 0" "cb_longitude body = Some lon" "lon \<noteq> 0"
    and "e_newId e \<notin> a_id ` set (alerts w)"
  shows "findAlert (cr_world (createAlert e u body w)) (e_newId e) = Some (createdAlert e u lat lon body w)"
proof -
  have id0: "a_id (newAlert e u lat lon body) = e_newId e" by (simp add: newAlert_def)
  have f0: "findAlert (w\<lparr>alerts := alerts w @ [newAlert e u lat lon body]\<rparr>) (e_newId e)
              = Some (newAlert e u lat lon body)"
    by (rule findAlert_appended[OF assms(5) id0])
  show ?thesis
    unfolding create_ok[OF assms(1-4)] createdAlert_def
    using findAlert_saveAlert_same'[OF f0, where now = "e_now e"] id0
    by simp
qed

lemma createdAlert_contacts:
  "a_notifiedContacts (createdAlert e u lat lon body w) =
     map (\<lambda>c. \<lparr>nc_contact = c_id c, nc_notifiedAt = e_now e, nc_method = sms,
                nc_status = roundStatus e (smsText (e_numToString e) (u_name u) lat lon) c\<rparr>)
       (filter (\<lambda>c. c_user c = u_id u \<and> c_isActive c) (contacts w))"
  by (simp add: createdAlert_def contactResults_def smsMessage_new)

lemma createdAlert_fields:
  "a_status (createdAlert e u lat lon body w) = active"
  "a_priority (createdAlert e u lat lon body w) = high"
  "a_user (createdAlert e u lat lon body w) = u_id u"
  "a_timeline (createdAlert e u lat lon body w) =
     [\<lparr>t_action = ''created'', t_description = ''Emergency alert created'',
       t_performedBy = u_id u, t_timestamp = e_now e\<rparr>]"
  "a_notifiedVolunteers (createdAlert e u lat lon body w) =
     map (notifiedEntryOf (e_now e) lat lon) (findNearbyVolunteers e w lat lon)"
  "l_coordinates (a_location (createdAlert e u lat lon body w)) = (lon, lat)"
  by (simp_all add: createdAlert_def newAlert_def)

lemma findNearby_length: "length (findNearbyVolunteers e w lat lon) \<le> maxVolunteersToNotify"
  by (simp add: findNearbyVolunteers_def Let_def)

lemma findNearby_cases:
  "findNearbyVolunteers e w lat lon =
     (if \<not> e_geoFails e \<and>
         geoNear (e_geoDistance e) (lon, lat) 5000 (filter eligible (volunteers w)) \<noteq> []
      then take 10 (geoNear (e_geoDistance e) (lon, lat) 5000 (filter eligible (volunteers w)))
      else take 10 (filter eligible (volunteers w)))"
  by (simp add: findNearbyVolunteers_def Let_def maxVolunteersToNotify_def searchRadius_def)

text \<open>What holds of C6: with non-zero coordinates and a fresh id the answer is 201 and the
  saved alert is \<open>active\<close>, of priority \<open>high\<close>, with the one timeline entry \<open>created\<close> and
  at most \<open>maxVolunteersToNotify\<close> notified volunteers.\<close>

lemma createAlert_creates:
  assumes "cb_latitude body = Some lat" "lat \<noteq> 0" "cb_longitude body = Some lon" "lon \<noteq> 0"
    and "e_newId e \<notin> a_id ` set (alerts w)"
  shows "rcode (cr_response (createAlert e u body w)) = 201
    \<and> (\<exists>a. findAlert (cr_world (createAlert e u body w)) (e_newId e) = Some a
          \<and> a_status a = active \<and> a_priority a = high
          \<and> map t_action (a_timeline a) = [''created'']
          \<and> length (a_notifiedVolunteers a) \<le> maxVolunteersToNotify)"
  using created_stored[OF assms, of u] findNearby_length[of e w lat lon]
  by (simp add: createdAlert_fields create_ok[OF assms(1-4)])

text \<open>C6. A request with latitude 0 (in range, on the equator) is answered 400 ``Location
  is required'' and nothing is created: \<open>!latitude\<close> is true for the number 0.\<close>

theorem createAlert_rejects_zero_latitude:
  "cb_latitude equator_body = Some 0 \<and> (- 90 :: real) \<le> 0 \<and> (0 :: real) \<le> 90
   \<and> cb_longitude equator_body = Some 77 \<and> (- 180 :: real) \<le> 77 \<and> (77 :: real) \<le> 180
   \<and> createAlert e u equator_body w =
       \<lparr>cr_world = w, cr_response = Response 400 False ''Location is required'',
        cr_data = None, cr_sms = []\<rparr>"
  by (simp add: create_rejects falsy_num_def equator_body_def)

section \<open>Volunteer matching\<close>

lemma geoNear_set:
  "set (geoNear gd pt r cand) =
     {v \<in> set cand. \<exists>l. v_currentLocation v = Some l \<and> gd pt l \<le> r}"
  by (auto simp: geoNear_def geoKey_def)

lemma geoNear_sorted: "sorted (map (geoKey gd pt) (geoNear gd pt r cand))"
  by (simp add: geoNear_def)

lemma sorted_take_drop:
  assumes "sorted (map f xs)"
  shows "\<forall>x \<in> set (take n xs). \<forall>y \<in> set (drop n xs). f x \<le> f y"
proof -
  have "sorted (map f (take n xs) @ map f (drop n xs))"
    using assms by (simp flip: map_append)
  then show ?thesis by (auto simp: sorted_append)
qed

lemma findNearby_eligible:
  "v \<in> set (findNearbyVolunteers e w lat lon) \<Longrightarrow> eligible v \<and> v \<in> set (volunteers w)"
  by (auto simp: findNearby_cases geoNear_set dest!: in_set_takeD split: if_splits)

lemma notifiedEntryOf_eq:
  "notifiedEntryOf now lat lon =
     (\<lambda>v. \<lparr>nv_volunteer = v_id v, nv_notifiedAt = now,
            nv_distance = (case v_currentLocation v of
                             None \<Rightarrow> None
                           | Some l \<Rightarrow> Some (calculateDistance lat lon (snd l) (fst l))),
            nv_status = notified\<rparr>)"
  by (simp add: notifiedEntryOf_def fun_eq_iff)

lemma eligible_eq: "eligible = (\<lambda>v. v_isVerified v \<and> v_status v = v_active \<and> v_isOnDuty v)"
  by (simp add: fun_eq_iff eligible_def)

text \<open>What holds of C5. For a create request that is not rejected (non-zero coordinates),
  with a fresh alert id: the matcher asks for the verified, active, on-duty volunteers
  within 5 km of the alert, nearest first, and keeps at most 10 of them; when the query
  throws or answers with nothing, it takes the first 10 verified, active, on-duty volunteers
  regardless of distance. Either way at most 10 volunteers are matched, and the saved alert
  lists one entry per matched volunteer, whose distance is computed from the coordinates
  on the volunteer's document.\<close>

lemma findNearbyVolunteers_matches:
  assumes "cb_latitude body = Some lat" and "lat \<noteq> 0"
    and "cb_longitude body = Some lon" and "lon \<noteq> 0"
    and "e_newId e \<notin> a_id ` set (alerts w)"
  defines "cand \<equiv> filter (\<lambda>v. v_isVerified v \<and> v_status v = v_active \<and> v_isOnDuty v) (volunteers w)"
  defines "near \<equiv> geoNear (e_geoDistance e) (lon, lat) 5000 cand"
  defines "matched \<equiv> findNearbyVolunteers e w lat lon"
  shows
  "(\<not> e_geoFails e \<and> near \<noteq> [] \<longrightarrow> matched = take 10 near)
   \<and> (e_geoFails e \<or> near = [] \<longrightarrow> matched = take 10 cand)
   \<and> set near = {v \<in> set (volunteers w). v_isVerified v \<and> v_status v = v_active \<and> v_isOnDuty v \<and>
                    (\<exists>l. v_currentLocation v = Some l \<and> e_geoDistance e (lon, lat) l \<le> 5000)}
   \<and> sorted (map (geoKey (e_geoDistance e) (lon, lat)) near)
   \<and> (\<forall>x \<in> set (take 10 near). \<forall>y \<in> set (drop 10 near).
         geoKey (e_geoDistance e) (lon, lat) x \<le> geoKey (e_geoDistance e) (lon, lat) y)
   \<and> length matched \<le> 10
   \<and> (\<forall>v \<in> set matched. v_isVerified v \<and> v_status v = v_active \<and> v_isOnDuty v
                        \<and> v \<in> set (volunteers w))
   \<and> (\<exists>a. findAlert (cr_world (createAlert e u body w)) (e_newId e) = Some a
         \<and> a_notifiedVolunteers a =
             map (\<lambda>v. \<lparr>nv_volunteer = v_id v, nv_notifiedAt = e_now e,
                        nv_distance = (case v_currentLocation v of
                                         None \<Rightarrow> None
                                       | Some l \<Rightarrow> Some (calculateDistance lat lon (snd l) (fst l))),
                        nv_status = notified\<rparr>) matched)
   \<and> map_option cd_volunteersNotified (cr_data (createAlert e u body w)) = Some (length matched)"
proof -
  have cand: "cand = filter eligible (volunteers w)"
    unfolding cand_def eligible_eq ..
  have m1: "\<not> e_geoFails e \<and> near \<noteq> [] \<longrightarrow> matched = take 10 near"
    unfolding matched_def near_def cand by (simp add: findNearby_cases)
  have m2: "e_geoFails e \<or> near = [] \<longrightarrow> matched = take 10 cand"
    unfolding matched_def near_def cand by (auto simp: findNearby_cases)
  have s: "set near = {v \<in> set (volunteers w). v_isVerified v \<and> v_status v = v_active \<and> v_isOnDuty v \<and>
                    (\<exists>l. v_currentLocation v = Some l \<and> e_geoDistance e (lon, lat) l \<le> 5000)}"
    unfolding near_def cand_def geoNear_set by auto
  have so: "sorted (map (geoKey (e_geoDistance e) (lon, lat)) near)"
    unfolding near_def by (rule geoNear_sorted)
  note cut = sorted_take_drop[OF so, of 10]
  have len: "length matched \<le> 10"
    unfolding matched_def using findNearby_length[of e w lat lon]
    by (simp add: maxVolunteersToNotify_def)
  have el: "\<forall>v \<in> set matched. v_isVerified v \<and> v_status v = v_active \<and> v_isOnDuty v
                        \<and> v \<in> set (volunteers w)"
    unfolding matched_def using findNearby_eligible[of _ e w lat lon]
    by (auto simp: eligible_def)
  have st: "\<exists>a. findAlert (cr_world (createAlert e u body w)) (e_newId e) = Some a
         \<and> a_notifiedVolunteers a =
             map (\<lambda>v. \<lparr>nv_volunteer = v_id v, nv_notifiedAt = e_now e,
                        nv_distance = (case v_currentLocation v of
                                         None \<Rightarrow> None
                                       | Some l \<Rightarrow> Some (calculateDistance lat lon (snd l) (fst l))),
                        nv_status = notified\<rparr>) matched"
    unfolding matched_def
    using created_stored[OF assms(1-5), of u]
    by (simp add: createdAlert_fields notifiedEntryOf_eq)
  have cnt: "map_option cd_volunteersNotified (cr_data (createAlert e u body w)) = Some (length matched)"
    unfolding matched_def by (simp add: create_ok[OF assms(1-4)])
  from m1 m2 s so cut len el st cnt show ?thesis by (intro conjI)
qed

lemma match_world_fields [simp]:
  "volunteers match_world = [vol_c, vol_d, vol_a, vol_b]"
  "alerts match_world = [sample_alert]"
  "contacts match_world = [contact_p, contact_q]"
  by (simp_all add: match_world_def sample_world_def)

lemma sample_env_fields [simp]:
  "e_now sample_env = 5000" "e_newId sample_env = 2" "e_geoFails sample_env = False"
  "e_geoDistance sample_env = grid_distance"
  "e_sms sample_env = None"
  "e_gateway sample_env = sample_gateway"
  "e_numToString sample_env = sample_numToString"
  by (simp_all add: sample_env_def config_sms_def)

lemma keyed_env_fields [simp]:
  "e_now keyed_env = 5000" "e_newId keyed_env = 2" "e_geoFails keyed_env = False"
  "e_geoDistance keyed_env = grid_distance"
  "e_sms keyed_env = Some \<lparr>fast2smsApiKey = Some ''key''\<rparr>"
  "e_gateway keyed_env = sample_gateway"
  "e_numToString keyed_env = sample_numToString"
  by (simp_all add: keyed_env_def)

lemma sample_body_fields [simp]:
  "cb_latitude sample_body = Some 13" "cb_longitude sample_body = Some 77"
  "cb_latitude far_body = Some 13" "cb_longitude far_body = Some 90"
  by (simp_all add: sample_body_def far_body_def)

lemma sample_vols [simp]:
  "eligible vol_a" "eligible vol_b" "eligible vol_c" "\<not> eligible vol_d"
  "v_currentLocation vol_a = Some (77, 13)"
  "v_currentLocation vol_b = Some (0, 0)"
  "v_currentLocation vol_c = Some (78, 13)"
  "v_currentLocation vol_d = Some (77, 13)"
  "v_id vol_c = 12" "v_id vol_d = 14"
  by (simp_all add: eligible_def vol_a_def vol_b_def vol_c_def vol_d_def)

text \<open>The matcher on the sample store: the off-duty volunteer 14 at the very place of the
  alert is left out, volunteer 11 at \<open>(0, 0)\<close> is out of reach, and the volunteers 10 and 12
  are matched, nearest first; when the query throws, the three verified, active, on-duty
  volunteers are matched in store order.\<close>

lemma match_near:
  "geoNear grid_distance (77, 13) 5000 [vol_c, vol_a, vol_b] = [vol_a, vol_c]"
  by (simp add: geoNear_def geoKey_def grid_distance_def)

lemma match_found:
  "findNearbyVolunteers sample_env match_world 13 77 = [vol_a, vol_c]"
  "findNearbyVolunteers (sample_env\<lparr>e_geoFails := True\<rparr>) match_world 13 77 = [vol_c, vol_a, vol_b]"
  by (simp_all add: findNearby_cases match_near)

subsection \<open>Distances\<close>

lemma arctan_term_mono:
  fixes x :: real
  assumes "0 \<le> x" "x \<le> 1"
  shows "1 / real (Suc n * 2 + 1) * x ^ (Suc n * 2 + 1) \<le> 1 / real (n * 2 + 1) * x ^ (n * 2 + 1)"
proof -
  have p: "x ^ (Suc n * 2 + 1) \<le> x ^ (n * 2 + 1)"
    using assms by (intro power_decreasing) simp_all
  have q: "1 / real (Suc n * 2 + 1) \<le> 1 / real (n * 2 + 1)"
    by (simp add: field_simps)
  have "1 / real (Suc n * 2 + 1) * x ^ (Suc n * 2 + 1) \<le> 1 / real (n * 2 + 1) * x ^ (Suc n * 2 + 1)"
    using assms q by (intro mult_right_mono) simp_all
  also have "\<dots> \<le> 1 / real (n * 2 + 1) * x ^ (n * 2 + 1)"
    using p by (intro mult_left_mono) simp_all
  finally show ?thesis .
qed

text \<open>The partial sums of the arc tangent series enclose its value.\<close>

lemma arctan_bounds:
  fixes x :: real
  assumes "0 \<le> x" "x \<le> 1"
  shows "(\<Sum>i<2*n. (-1)^i * (1 / real (i * 2 + 1) * x ^ (i * 2 + 1))) \<le> arctan x"
    and "arctan x \<le> (\<Sum>i<2*n+1. (-1)^i * (1 / real (i * 2 + 1) * x ^ (i * 2 + 1)))"
proof -
  have ax: "\<bar>x\<bar> \<le> 1" using assms by simp
  note L = summable_Leibniz'[of "\<lambda>n. 1 / real (n * 2 + 1) * x ^ (n * 2 + 1)",
      OF zeroseq_arctan_series[OF ax] _ arctan_term_mono[OF assms]]
  have pos: "\<And>n. 0 \<le> 1 / real (n * 2 + 1) * x ^ (n * 2 + 1)" using assms by simp
  show "(\<Sum>i<2*n. (-1)^i * (1 / real (i * 2 + 1) * x ^ (i * 2 + 1))) \<le> arctan x"
    unfolding arctan_series[OF ax] by (rule L(2)[OF pos])
  show "arctan x \<le> (\<Sum>i<2*n+1. (-1)^i * (1 / real (i * 2 + 1) * x ^ (i * 2 + 1)))"
    unfolding arctan_series[OF ax] by (rule L(4)[OF pos])
qed

lemma pi_upper: "pi \<le> 3.14159266"
proof -
  have u: "arctan (1/5) \<le> (\<Sum>i<2*3+1. (-1)^i * (1 / real (i * 2 + 1) * (1/5) ^ (i * 2 + 1)))"
    by (rule arctan_bounds(2)) simp_all
  have l: "(\<Sum>i<2*1. (-1)^i * (1 / real (i * 2 + 1) * (1/239) ^ (i * 2 + 1))) \<le> arctan (1/239)"
    by (rule arctan_bounds(1)) simp_all
  have "pi = 16 * arctan (1/5) - 4 * arctan (1/239)"
    using machin by simp
  also have "\<dots> \<le> 16 * (\<Sum>i<2*3+1. (-1)^i * (1 / real (i * 2 + 1) * (1/5) ^ (i * 2 + 1)))
       - 4 * (\<Sum>i<2*1. (-1)^i * (1 / real (i * 2 + 1) * (1/239) ^ (i * 2 + 1)))"
    using u l by simp
  also have "\<dots> \<le> 3.14159266"
    by (simp add: lessThan_Suc eval_nat_numeral)
  finally show ?thesis .
qed

lemma pi_lower: "3.1415924 \<le> pi"
proof -
  have l: "(\<Sum>i<2*3. (-1)^i * (1 / real (i * 2 + 1) * (1/5) ^ (i * 2 + 1))) \<le> arctan (1/5)"
    by (rule arctan_bounds(1)) simp_all
  have u: "arctan (1/239) \<le> (\<Sum>i<2*0+1. (-1)^i * (1 / real (i * 2 + 1) * (1/239) ^ (i * 2 + 1)))"
    by (rule arctan_bounds(2)) simp_all
  have "3.1415924 \<le> 16 * (\<Sum>i<2*3. (-1)^i * (1 / real (i * 2 + 1) * (1/5) ^ (i * 2 + 1)))
       - 4 * (\<Sum>i<2*0+1. (-1)^i * (1 / real (i * 2 + 1) * (1/239) ^ (i * 2 + 1 :: nat)))"
    by (simp add: lessThan_Suc eval_nat_numeral)
  also have "\<dots> \<le> 16 * arctan (1/5) - 4 * arctan (1/239)"
    using u l by simp
  also have "\<dots> = pi"
    using machin by simp
  finally show ?thesis .
qed

lemma quarter_circle: "round (6371000 * (pi / 2)) = 10007543"
proof -
  have "10007543 - 1/2 \<le> 6371000 * (pi / 2)" using pi_lower by simp
  moreover have "6371000 * (pi / 2) < 10007543 + 1/2" using pi_upper by simp
  ultimately show ?thesis
    by (simp add: round_def floor_eq_iff)
qed

lemma haversine_algebra:
  fixes S r :: real
  assumes "r * r = 1 / 2"
  shows "(- S) * (- S) + (1 - 2 * S\<^sup>2) * 1 * (- r) * (- r) = 1 / 2"
proof -
  have "(- S) * (- S) + (1 - 2 * S\<^sup>2) * 1 * (- r) * (- r) = S\<^sup>2 + (1 - 2 * S\<^sup>2) * (r * r)"
    by (simp add: power2_eq_square mult.assoc)
  also have "\<dots> = 1 / 2"
    unfolding assms by (simp add: algebra_simps)
  finally show ?thesis .
qed

lemma haversine_quarter:
  "sin ((0 - lat) * pi / 180 / 2) * sin ((0 - lat) * pi / 180 / 2) +
     cos (lat * pi / 180) * cos (0 * pi / 180) * sin ((0 - 90) * pi / 180 / 2) * sin ((0 - 90) * pi / 180 / 2)
   = 1 / 2"
proof -
  have q: "(0 - 90) * pi / 180 / 2 = - (pi / 4)" by simp
  have s45: "sin ((0 - 90) * pi / 180 / 2) = - (sqrt 2 / 2)"
    unfolding q by (simp add: sin_45)
  have w: "sin ((0 - lat) * pi / 180 / 2) = - sin (lat * pi / 360)"
  proof -
    have "(0 - lat) * pi / 180 / 2 = - (lat * pi / 360)" by simp
    then show ?thesis by (simp only: sin_minus)
  qed
  have e: "lat * pi / 180 = 2 * (lat * pi / 360)" by simp
  have dbl: "cos (lat * pi / 180) = 1 - 2 * (sin (lat * pi / 360))\<^sup>2"
    by (subst e) (rule cos_double_sin)
  have c0: "cos (0 * pi / 180) = 1" by simp
  have sq: "(sqrt 2 / 2) * (sqrt 2 / 2) = (1 / 2 :: real)" by simp
  show ?thesis
    unfolding s45 w dbl c0 by (rule haversine_algebra[OF sq])
qed

text \<open>From any latitude on the meridian of 90 degrees east to the point \<open>(0, 0)\<close> it is a
  quarter of a great circle: 10 007 543 m. A point is at distance 0 from itself.\<close>

lemma calculateDistance_quarter: "calculateDistance lat 90 0 0 = 10007543"
proof -
  have h: "sqrt (1 / 2 :: real) > 0" by simp
  have at: "atan2 (sqrt (1 / 2)) (sqrt (1 - 1 / 2)) = pi / 4"
    using h by (simp add: atan2_def arctan_one)
  have "calculateDistance lat 90 0 0 = round (6371000 * (2 * atan2 (sqrt (1 / 2)) (sqrt (1 - 1 / 2))))"
    unfolding calculateDistance_def Let_def haversine_quarter ..
  also have "\<dots> = round (6371000 * (pi / 2))"
    unfolding at by simp
  also have "\<dots> = 10007543"
    by (rule quarter_circle)
  finally show ?thesis .
qed

lemma calculateDistance_same: "calculateDistance lat lon lat lon = 0"
  by (simp add: calculateDistance_def Let_def atan2_def)

lemma unlocated_fields [simp]:
  "vol_new = \<lparr>v_id = 13, v_user = 103, v_isVerified = True, v_status = v_active, v_isOnDuty = True,
      v_currentLocation = Some (0, 0),
      v_stats = \<lparr>totalResponses = 0, successfulAssists = 0, declinedAlerts = 0,
                 avgResponseTime = Some 0, rating = 0, totalRatings = 0\<rparr>,
      v_badges = [], v_updatedAt = 300\<rparr>"
  "vol_off = \<lparr>v_id = 15, v_user = 105, v_isVerified = True, v_status = v_active, v_isOnDuty = False,
      v_currentLocation = Some (0, 0),
      v_stats = \<lparr>totalResponses = 0, successfulAssists = 0, declinedAlerts = 0,
                 avgResponseTime = Some 0, rating = 0, totalRatings = 0\<rparr>,
      v_badges = [], v_updatedAt = 200\<rparr>"
  by (simp_all add: vol_new_def vol_off_def toggleDuty_def verifyVolunteer_def registerVolunteer_def)

lemma unlocated_found:
  "findNearbyVolunteers sample_env unlocated_world 13 90 = [vol_new]"
  by (simp add: findNearby_cases unlocated_world_def geoNear_def geoKey_def grid_distance_def
        eligible_def)

text \<open>C5. A volunteer who has registered, been verified and gone on duty without ever
  reporting a position carries the coordinates \<open>[0, 0]\<close> that the schema gives by default.
  For an alert raised at latitude 13, longitude 90 the geospatial query finds nobody within
  5 km, the fallback takes the verified, active, on-duty volunteers (the volunteer who is
  off duty is left out), and the entry saved for this volunteer carries a distance: the
  10 007 543 m from the alert to the point \<open>(0, 0)\<close>. The distance is not left unset.\<close>

theorem unlocated_volunteer_gets_distance:
  "v_currentLocation (registerVolunteer 100 13 103) = Some (0, 0)
   \<and> v_currentLocation vol_new = v_currentLocation (registerVolunteer 100 13 103)
   \<and> v_isVerified vol_new \<and> v_status vol_new = v_active \<and> v_isOnDuty vol_new
   \<and> v_isVerified vol_off \<and> v_status vol_off = v_active \<and> \<not> v_isOnDuty vol_off
   \<and> volunteers unlocated_world = [vol_off, vol_new]
   \<and> geoNear (e_geoDistance sample_env) (90, 13) (searchRadius * 1000)
        (filter eligible (volunteers unlocated_world)) = []
   \<and> findNearbyVolunteers sample_env unlocated_world 13 90 = [vol_new]
   \<and> rcode (cr_response (createAlert sample_env owner far_body unlocated_world)) = 201
   \<and> map_option a_notifiedVolunteers
        (findAlert (cr_world (createAlert sample_env owner far_body unlocated_world)) 2)
       = Some [\<lparr>nv_volunteer = 13, nv_notifiedAt = 5000, nv_distance = Some 10007543,
                 nv_status = notified\<rparr>]"
proof -
  have h: "cb_latitude far_body = Some 13" "(13::real) \<noteq> 0"
      "cb_longitude far_body = Some 90" "(90::real) \<noteq> 0"
      "e_newId sample_env \<notin> a_id ` set (alerts unlocated_world)"
    by (simp_all add: unlocated_world_def)
  have loc: "v_currentLocation (registerVolunteer 100 13 103) = Some (0, 0)"
    by (simp add: registerVolunteer_def)
  have near: "geoNear (e_geoDistance sample_env) (90, 13) (searchRadius * 1000)
        (filter eligible (volunteers unlocated_world)) = []"
    by (simp add: unlocated_world_def geoNear_def geoKey_def grid_distance_def eligible_def
          searchRadius_def)
  have st: "findAlert (cr_world (createAlert sample_env owner far_body unlocated_world)) 2
      = Some (createdAlert sample_env owner 13 90 far_body unlocated_world)"
    using created_stored[OF h, of owner] by simp
  have en: "a_notifiedVolunteers (createdAlert sample_env owner 13 90 far_body unlocated_world)
      = [\<lparr>nv_volunteer = 13, nv_notifiedAt = 5000, nv_distance = Some 10007543,
           nv_status = notified\<rparr>]"
    by (simp add: createdAlert_fields unlocated_found notifiedEntryOf_def calculateDistance_quarter)
  have rc: "rcode (cr_response (createAlert sample_env owner far_body unlocated_world)) = 201"
    unfolding create_ok[OF h(1-4)] by simp
  have saved: "map_option a_notifiedVolunteers
        (findAlert (cr_world (createAlert sample_env owner far_body unlocated_world)) 2)
       = Some [\<lparr>nv_volunteer = 13, nv_notifiedAt = 5000, nv_distance = Some 10007543,
                 nv_status = notified\<rparr>]"
    unfolding st by (simp add: en)
  have same: "v_currentLocation vol_new = v_currentLocation (registerVolunteer 100 13 103)"
    by (simp add: registerVolunteer_def)
  have flags: "v_isVerified vol_new" "v_status vol_new = v_active" "v_isOnDuty vol_new"
      "v_isVerified vol_off" "v_status vol_off = v_active" "\<not> v_isOnDuty vol_off"
    by simp_all
  have vs: "volunteers unlocated_world = [vol_off, vol_new]"
    by (simp add: unlocated_world_def)
  from loc same flags vs near unlocated_found rc saved show ?thesis
    by (intro conjI)
qed
section \<open>Notifying the emergency contacts\<close>

lemma round_unconfigured:
  "e_sms e = None \<Longrightarrow> roundStatus e m c = failed"
  "e_sms e = None \<Longrightarrow> roundEffects e m c = []"
  by (simp_all add: roundStatus_def roundEffects_def sendSMS_def)

lemma round_configured:
  assumes "e_sms e = Some k"
  shows "roundStatus e m c =
           (if fast2smsApiKey k = None \<or> fast2smsApiKey k = Some []
               \<or> e_gateway e (cleanPhone (c_phone c)) m = Accepted
            then sent else failed)"
    and "roundEffects e m c =
           [if fast2smsApiKey k = None \<or> fast2smsApiKey k = Some []
            then Stub (cleanPhone (c_phone c)) m else Post (cleanPhone (c_phone c)) m]"
  using assms
  by (simp_all add: roundStatus_def roundEffects_def sendSMS_def Let_def split: gateway_reply.split)

lemma sample_phones:
  "cleanPhone (units ''+91 98765-43210'') = units ''9876543210''"
  "cleanPhone (units ''09876543211'') = units ''9876543211''"
  by (simp_all add: cleanPhone_def js_space_def startsWith_def units_def Let_def)

lemma sample_text:
  "smsText sample_numToString (u_name owner) 13 77 =
     ''EMERGENCY! U triggered SOS on SafeHer and needs help. Location: https://www.google.com/maps?q=13,77''"
  by (simp add: smsText_def owner_def sample_numToString_def)

text \<open>What the code does for the contacts on creating an alert (non-zero coordinates, fresh
  id), under any configuration. One round of the loop is run for every active emergency
  contact of the caller, in order, and its outcome, \<open>sent\<close> or \<open>failed\<close> with method \<open>sms\<close>,
  is saved on the alert's notified-contacts list; the outcome of a contact depends on that
  contact's own round alone. Without the member \<open>sms\<close> in the configuration every round
  fails and nothing is sent. With it, each round attempts one SMS, whose text ends with the
  maps link of the alert's coordinates: a POST to the gateway of the cleaned number when an
  API key is set, a logged stub otherwise. No round places a voice call.\<close>

lemma contacts_rounds:
  fixes u :: caller
  assumes "cb_latitude body = Some lat" and "lat \<noteq> 0"
    and "cb_longitude body = Some lon" and "lon \<noteq> 0"
    and "e_newId e \<notin> a_id ` set (alerts w)"
  defines "cs \<equiv> filter (\<lambda>c. c_user c = u_id u \<and> c_isActive c) (contacts w)"
  defines "msg \<equiv> ''EMERGENCY! '' @ u_name u @ '' triggered SOS on SafeHer and needs help. Location: '' @
                  ''https://www.google.com/maps?q='' @ e_numToString e lat @ '','' @ e_numToString e lon"
  shows
  "cr_sms (createAlert e u body w) =
      concat (map (\<lambda>c. case e_sms e of
                 None \<Rightarrow> []
               | Some k \<Rightarrow> [if fast2smsApiKey k = None \<or> fast2smsApiKey k = Some []
                            then Stub (cleanPhone (c_phone c)) msg
                            else Post (cleanPhone (c_phone c)) msg]) cs)
   \<and> (\<exists>a. findAlert (cr_world (createAlert e u body w)) (e_newId e) = Some a
         \<and> a_notifiedContacts a =
             map (\<lambda>c. \<lparr>nc_contact = c_id c, nc_notifiedAt = e_now e, nc_method = sms,
                        nc_status = (case e_sms e of
                            None \<Rightarrow> failed
                          | Some k \<Rightarrow> if fast2smsApiKey k = None \<or> fast2smsApiKey k = Some []
                                          \<or> e_gateway e (cleanPhone (c_phone c)) msg = Accepted
                                       then sent else failed)\<rparr>) cs)
   \<and> map_option cd_contactsNotified (cr_data (createAlert e u body w)) = Some (length cs)"
proof -
  have m: "msg = smsText (e_numToString e) (u_name u) lat lon"
    by (simp add: msg_def smsText_def)
  have eff: "roundEffects e msg = (\<lambda>c. case e_sms e of
                 None \<Rightarrow> []
               | Some k \<Rightarrow> [if fast2smsApiKey k = None \<or> fast2smsApiKey k = Some []
                            then Stub (cleanPhone (c_phone c)) msg
                            else Post (cleanPhone (c_phone c)) msg])"
    by (cases "e_sms e") (simp_all add: fun_eq_iff round_unconfigured round_configured)
  have sta: "roundStatus e msg = (\<lambda>c. case e_sms e of
                            None \<Rightarrow> failed
                          | Some k \<Rightarrow> if fast2smsApiKey k = None \<or> fast2smsApiKey k = Some []
                                          \<or> e_gateway e (cleanPhone (c_phone c)) msg = Accepted
                                       then sent else failed)"
    by (cases "e_sms e") (simp_all add: fun_eq_iff round_unconfigured round_configured)
  have 1: "cr_sms (createAlert e u body w) = concat (map (roundEffects e msg) cs)"
    unfolding create_ok[OF assms(1-4)] m cs_def
    by (simp add: smsMessage_new)
  have nc: "a_notifiedContacts (createdAlert e u lat lon body w) =
             map (\<lambda>c. \<lparr>nc_contact = c_id c, nc_notifiedAt = e_now e, nc_method = sms,
                        nc_status = roundStatus e msg c\<rparr>) cs"
    unfolding createdAlert_contacts m cs_def ..
  have 2: "\<exists>a. findAlert (cr_world (createAlert e u body w)) (e_newId e) = Some a
         \<and> a_notifiedContacts a =
             map (\<lambda>c. \<lparr>nc_contact = c_id c, nc_notifiedAt = e_now e, nc_method = sms,
                        nc_status = roundStatus e msg c\<rparr>) cs"
    using created_stored[OF assms(1-5), of u] nc by simp
  have 3: "map_option cd_contactsNotified (cr_data (createAlert e u body w)) = Some (length cs)"
    unfolding create_ok[OF assms(1-4)] cs_def by simp
  from 1 2 3 show ?thesis
    unfolding eff sta by (intro conjI)
qed

lemma sample_contacts [simp]:
  "filter (\<lambda>c. c_user c = 200 \<and> c_isActive c) (contacts sample_world) = [contact_p, contact_q]"
  "c_phone contact_p = units ''+91 98765-43210''" "c_phone contact_q = units ''09876543211''"
  "c_id contact_p = 30" "c_id contact_q = 31"
  "c_isPrimary contact_p" "c_isActive contact_p" "c_user contact_p = 200"
  "c_isActive contact_q" "c_user contact_q = 200"
  by (simp_all add: sample_world_def contact_p_def contact_q_def owner_def)

lemma sample_fresh [simp]:
  "e_newId sample_env \<notin> a_id ` set (alerts sample_world)"
  "e_newId keyed_env \<notin> a_id ` set (alerts sample_world)"
  by simp_all

text \<open>Under a configuration that has the member \<open>sms\<close> with an API key, creating the sample
  alert posts two SMS, one per active contact, and nothing else: the primary contact gets
  the same SMS as the other one and no voice call. The second SMS is refused by the gateway
  and recorded \<open>failed\<close>; the first is recorded \<open>sent\<close> all the same.\<close>

lemma keyed_contacts_get_sms_only:
  "c_isPrimary contact_p \<and> c_isActive contact_p \<and> c_user contact_p = u_id owner
   \<and> cr_sms (createAlert keyed_env owner sample_body sample_world) =
       [Post (units ''9876543210'')
          ''EMERGENCY! U triggered SOS on SafeHer and needs help. Location: https://www.google.com/maps?q=13,77'',
        Post (units ''9876543211'')
          ''EMERGENCY! U triggered SOS on SafeHer and needs help. Location: https://www.google.com/maps?q=13,77'']
   \<and> contactOutcomes (cr_world (createAlert keyed_env owner sample_body sample_world)) 2
       = Some [(30, sms, sent), (31, sms, failed)]"
proof -
  have h: "cb_latitude sample_body = Some 13" "(13::real) \<noteq> 0"
      "cb_longitude sample_body = Some 77" "(77::real) \<noteq> 0"
    by simp_all
  have st: "findAlert (cr_world (createAlert keyed_env owner sample_body sample_world)) 2
      = Some (createdAlert keyed_env owner 13 77 sample_body sample_world)"
    using created_stored[OF h sample_fresh(2), of owner] by simp
  have k: "e_sms keyed_env = Some \<lparr>fast2smsApiKey = Some ''key''\<rparr>" by simp
  have differ: "units ''9876543210'' \<noteq> units ''9876543211''"
    by (simp add: units_def)
  have eff: "cr_sms (createAlert keyed_env owner sample_body sample_world) =
       [Post (units ''9876543210'')
          ''EMERGENCY! U triggered SOS on SafeHer and needs help. Location: https://www.google.com/maps?q=13,77'',
        Post (units ''9876543211'')
          ''EMERGENCY! U triggered SOS on SafeHer and needs help. Location: https://www.google.com/maps?q=13,77'']"
    unfolding create_ok[OF h] smsMessage_new keyed_env_fields sample_text
    by (simp add: round_configured(2)[OF k] sample_phones)
  have out: "map (\<lambda>n. (nc_contact n, nc_method n, nc_status n))
      (a_notifiedContacts (createdAlert keyed_env owner 13 77 sample_body sample_world))
       = [(30, sms, sent), (31, sms, failed)]"
    unfolding createdAlert_contacts keyed_env_fields sample_text
    by (simp add: round_configured(1)[OF k] sample_phones sample_gateway_def differ)
  from eff out show ?thesis
    unfolding contactOutcomes_def st by simp
qed

text \<open>C4. Under the configuration of the repository, which has no member \<open>sms\<close>, creating an
  alert for a caller with two active emergency contacts, the first of them the primary one,
  is answered 201 and sends nothing: no SMS is posted or stubbed and no call is placed, and
  both contacts are recorded with method \<open>sms\<close> and status \<open>failed\<close>.\<close>

theorem createAlert_contacts_all_failed:
  "config_sms = None \<and> e_sms sample_env = config_sms
   \<and> filter (\<lambda>c. c_user c = u_id owner \<and> c_isActive c) (contacts sample_world)
       = [contact_p, contact_q]
   \<and> c_isPrimary contact_p
   \<and> rcode (cr_response (createAlert sample_env owner sample_body sample_world)) = 201
   \<and> cr_sms (createAlert sample_env owner sample_body sample_world) = []
   \<and> contactOutcomes (cr_world (createAlert sample_env owner sample_body sample_world)) 2
       = Some [(30, sms, failed), (31, sms, failed)]"
proof -
  have h: "cb_latitude sample_body = Some 13" "(13::real) \<noteq> 0"
      "cb_longitude sample_body = Some 77" "(77::real) \<noteq> 0"
    by simp_all
  have n: "e_sms sample_env = None" by simp
  have st: "findAlert (cr_world (createAlert sample_env owner sample_body sample_world)) 2
      = Some (createdAlert sample_env owner 13 77 sample_body sample_world)"
    using created_stored[OF h sample_fresh(1), of owner] by simp
  have cfg: "config_sms = None" "e_sms sample_env = config_sms"
    by (simp_all add: config_sms_def)
  have cs: "filter (\<lambda>c. c_user c = u_id owner \<and> c_isActive c) (contacts sample_world)
       = [contact_p, contact_q]"
    by simp
  have prim: "c_isPrimary contact_p" by simp
  have rc: "rcode (cr_response (createAlert sample_env owner sample_body sample_world)) = 201"
    unfolding create_ok[OF h] by simp
  have eff: "cr_sms (createAlert sample_env owner sample_body sample_world) = []"
    unfolding create_ok[OF h]
    by (simp add: round_unconfigured(2)[OF n])
  have out: "contactOutcomes (cr_world (createAlert sample_env owner sample_body sample_world)) 2
       = Some [(30, sms, failed), (31, sms, failed)]"
    unfolding contactOutcomes_def st
    by (simp add: createdAlert_contacts round_unconfigured(1)[OF n])
  from cfg cs prim rc eff out show ?thesis
    by (intro conjI)
qed

section \<open>Badges under every operation\<close>

lemma badgesKept_same: "volunteers w' = volunteers w \<Longrightarrow> badgesKept w w'"
  by (simp add: badgesKept_def list_all2_same)

lemma distinct_map_eq:
  "distinct (map f xs) \<Longrightarrow> x \<in> set xs \<Longrightarrow> y \<in> set xs \<Longrightarrow> f x = f y \<Longrightarrow> x = y"
  by (auto simp: distinct_map dest: inj_onD)

lemma badgesKept_store:
  assumes d: "distinct (map v_id (volunteers w))"
    and same: "volunteers w1 = volunteers w"
    and mem: "v0 \<in> set (volunteers w)"
    and id: "v_id v = v_id v0"
    and pre: "v_badges v = v_badges v0 @ extra"
    and dis: "distinct (map b_name extra)"
    and fresh: "\<forall>b \<in> set extra. b_name b \<notin> set (map b_name (v_badges v0))"
  shows "badgesKept w (storeVolunteer v w1)"
proof -
  have "v_id (if v_id x = v_id v then v else x) = v_id x
        \<and> take (length (v_badges x)) (v_badges (if v_id x = v_id v then v else x)) = v_badges x
        \<and> distinct (map b_name (drop (length (v_badges x))
              (v_badges (if v_id x = v_id v then v else x))))
        \<and> (\<forall>b \<in> set (drop (length (v_badges x)) (v_badges (if v_id x = v_id v then v else x))).
              b_name b \<notin> set (map b_name (v_badges x)))"
    if x: "x \<in> set (volunteers w)" for x
  proof (cases "v_id x = v_id v")
    case True
    with id have "v_id x = v_id v0" by simp
    from distinct_map_eq[OF d x mem this] have "x = v0" .
    with True pre dis fresh show ?thesis by simp
  next
    case False
    then show ?thesis by simp
  qed
  then show ?thesis
    by (simp add: badgesKept_def storeVolunteer_def same list_all2_map2 list_all2_same)
qed

lemma checkBadges_extra:
  "v_badges v = bs \<Longrightarrow>
     v_badges (fst (checkBadges now v)) = bs @ awards now v
     \<and> distinct (map b_name (awards now v))
     \<and> (\<forall>b \<in> set (awards now v). b_name b \<notin> set (map b_name bs))"
  using awards_fresh[of _ now v]
  by (auto simp: badges_after awards_distinct has_badge_iff)

lemma badgesKept_checked:
  assumes d: "distinct (map v_id (volunteers w))"
    and same: "volunteers w1 = volunteers w"
    and mem: "v0 \<in> set (volunteers w)"
    and id: "v_id v = v_id v0"
    and bs: "v_badges v = v_badges v0"
  shows "badgesKept w (storeVolunteer (fst (checkBadges now v)) w1)"
proof -
  note x = checkBadges_extra[OF bs, of now]
  show ?thesis
    by (rule badgesKept_store[OF d same mem _ x[THEN conjunct1] x[THEN conjunct2, THEN conjunct1]
          x[THEN conjunct2, THEN conjunct2]])
       (simp add: id_after id)
qed

lemma findVolunteerByUser_mem: "findVolunteerByUser w uid = Some v \<Longrightarrow> v \<in> set (volunteers w)"
  unfolding findVolunteerByUser_def by (rule find_in_set)

lemma findVolunteerById_mem: "findVolunteerById w i = Some v \<Longrightarrow> v \<in> set (volunteers w) \<and> v_id v = i"
  unfolding findVolunteerById_def by (auto dest: find_in_set find_id)

lemma resolve_badgesKept:
  assumes "distinct (map v_id (volunteers w))"
  shows "badgesKept w (fst (resolveAlert now u i body w))"
proof (cases "findAlert w i")
  case None
  then show ?thesis by (simp add: resolveAlert_def badgesKept_same)
next
  case (Some a)
  show ?thesis
  proof (cases "findVolunteerByUser w (u_id u)")
    case None
    with Some show ?thesis
      by (simp add: resolveAlert_def Let_def badgesKept_same volunteers_saveAlert)
  next
    case vol: (Some vol)
    show ?thesis
    proof (cases "rv_volunteer (a_respondingVolunteer a) = Some (v_id vol)")
      case True
      have "badgesKept w (storeVolunteer
              (fst (checkBadges now (updateStats now rt True (rb_rating body) vol)))
              (saveAlert now a' w))" for rt a'
        by (rule badgesKept_checked[OF assms volunteers_saveAlert findVolunteerByUser_mem[OF vol]])
           (simp_all add: updateStats_id updateStats_badges)
      with Some vol True show ?thesis
        by (simp add: resolve_by_responder)
    next
      case False
      with Some vol show ?thesis
        by (simp add: resolveAlert_def Let_def badgesKept_same volunteers_saveAlert)
    qed
  qed
qed

lemma feedback_badgesKept:
  assumes "distinct (map v_id (volunteers w))"
  shows "badgesKept w (fst (submitFeedback now u i fb w))"
proof -
  have st: "badgesKept w (storeVolunteer
              (fst (checkBadges now (v\<lparr>v_stats := s, v_updatedAt := now\<rparr>))) (saveAlert now a' w))"
    if "findVolunteerById (saveAlert now a' w) vid = Some v" for v s a' vid
  proof -
    from that have "v \<in> set (volunteers w)"
      by (auto simp: findVolunteerById_saveAlert dest: findVolunteerById_mem)
    then show ?thesis
      by (rule badgesKept_checked[OF assms volunteers_saveAlert]) simp_all
  qed
  show ?thesis
    by (auto simp: submitFeedback_def Let_def badgesKept_same volunteers_saveAlert st
          split: option.splits)
qed

lemma decline_badgesKept:
  assumes "distinct (map v_id (volunteers w))"
  shows "badgesKept w (fst (declineAlert now u i w))"
proof -
  have st: "badgesKept w (storeVolunteer (v\<lparr>v_stats := s, v_updatedAt := now\<rparr>) w1)"
    if "findVolunteerByUser w uid = Some v" "volunteers w1 = volunteers w" for v s w1 uid
    by (rule badgesKept_store[OF assms that(2) findVolunteerByUser_mem[OF that(1)], where extra = "[]"])
       simp_all
  show ?thesis
    by (auto simp: declineAlert_def Let_def badgesKept_same volunteers_saveAlert st
          split: option.splits)
qed

lemma volunteers_untouched:
  "volunteers (fst (acceptAlert now u i w)) = volunteers w"
  "volunteers (fst (cancelAlert now u i w)) = volunteers w"
  "volunteers (fst (updateAlertLocation now u i lat lon w)) = volunteers w"
  "volunteers (cr_world (createAlert e u cb w)) = volunteers w"
  "volunteers (fst (cleanupAlerts now uf df w)) = volunteers w"
  by (simp_all add: acceptAlert_def cancelAlert_def updateAlertLocation_def
        createAlert_def cleanupAlerts_def Let_def volunteers_saveAlert split: option.splits)

lemma num_less_iff: "num_less x y \<longleftrightarrow> (\<exists>t. x = Some t \<and> t < y)"
  by (cases x) (simp_all add: num_less_def)

lemma awards_names_subset:
  "set (map b_name (awards now v))
     \<subseteq> {''First Responder'', ''10 Assists'', ''25 Assists'', ''50 Assists'', ''Quick Responder''}"
proof
  fix n
  assume "n \<in> set (map b_name (awards now v))"
  then have "n \<in> b_name ` set (awards now v)" by simp
  then have "n = ''First Responder'' \<or> n = ''10 Assists'' \<or> n = ''25 Assists''
      \<or> n = ''50 Assists'' \<or> n = ''Quick Responder''"
    unfolding awards_def set_append image_Un Un_iff award_mem
    by (elim disjE conjE) (simp_all only: simp_thms)
  then show "n \<in> {''First Responder'', ''10 Assists'', ''25 Assists'', ''50 Assists'', ''Quick Responder''}"
    by (simp only: insert_iff empty_iff simp_thms)
qed

lemma awards_iff:
  "(''First Responder'' \<in> set (map b_name (awards now v)) \<longleftrightarrow>
       1 \<le> totalResponses (v_stats v) \<and> ''First Responder'' \<notin> set (map b_name (v_badges v)))"
  "(''10 Assists'' \<in> set (map b_name (awards now v)) \<longleftrightarrow>
       10 \<le> successfulAssists (v_stats v) \<and> ''10 Assists'' \<notin> set (map b_name (v_badges v)))"
  "(''25 Assists'' \<in> set (map b_name (awards now v)) \<longleftrightarrow>
       25 \<le> successfulAssists (v_stats v) \<and> ''25 Assists'' \<notin> set (map b_name (v_badges v)))"
  "(''50 Assists'' \<in> set (map b_name (awards now v)) \<longleftrightarrow>
       50 \<le> successfulAssists (v_stats v) \<and> ''50 Assists'' \<notin> set (map b_name (v_badges v)))"
  "(''Quick Responder'' \<in> set (map b_name (awards now v)) \<longleftrightarrow>
       (\<exists>t. avgResponseTime (v_stats v) = Some t \<and> t < 180) \<and> 5 \<le> totalResponses (v_stats v)
       \<and> ''Quick Responder'' \<notin> set (map b_name (v_badges v)))"
  unfolding set_map has_badge_iff[symmetric] num_less_iff[symmetric]
  by (simp_all add: awards_def image_Un award_mem)

text \<open>C9. The badge check is idempotent and only ever appends. A second check changes
  nothing and awards nothing, and the badges held before stay, in place, in front of the
  new ones. A check awards each of the five badges exactly when its threshold is met and
  the badge is not held yet, and nothing else; the badges it awards have names that differ
  from one another and from the names held before, and each of them occurs exactly once in
  the badge list after the second check. A badge held before occurs as often as before, and
  badge names that were distinct stay distinct. No other operation takes a badge away or
  adds one a second time: \<open>updateStats\<close> does not touch the badges; resolve, feedback and
  decline leave every volunteer document in place with its former badges in front, followed
  only by badges of new, mutually different names (volunteer ids being distinct); accept,
  cancel, update-live-location, create and the cleanup job do not write volunteers.\<close>

theorem checkBadges_idempotent_monotone:
  fixes v :: volunteer and t1 t2 :: date
  defines "held \<equiv> map b_name (v_badges v)"
  defines "awarded \<equiv> map b_name (snd (checkBadges t1 v))"
  defines "twice \<equiv> map b_name (v_badges (fst (checkBadges t2 (fst (checkBadges t1 v)))))"
  shows
  "checkBadges t2 (fst (checkBadges t1 v)) = (fst (checkBadges t1 v), [])
   \<and> v_badges (fst (checkBadges t1 v)) = v_badges v @ snd (checkBadges t1 v)
   \<and> (''First Responder'' \<in> set awarded \<longleftrightarrow>
         1 \<le> totalResponses (v_stats v) \<and> ''First Responder'' \<notin> set held)
   \<and> (''10 Assists'' \<in> set awarded \<longleftrightarrow>
         10 \<le> successfulAssists (v_stats v) \<and> ''10 Assists'' \<notin> set held)
   \<and> (''25 Assists'' \<in> set awarded \<longleftrightarrow>
         25 \<le> successfulAssists (v_stats v) \<and> ''25 Assists'' \<notin> set held)
   \<and> (''50 Assists'' \<in> set awarded \<longleftrightarrow>
         50 \<le> successfulAssists (v_stats v) \<and> ''50 Assists'' \<notin> set held)
   \<and> (''Quick Responder'' \<in> set awarded \<longleftrightarrow>
         (\<exists>t. avgResponseTime (v_stats v) = Some t \<and> t < 180) \<and> 5 \<le> totalResponses (v_stats v)
         \<and> ''Quick Responder'' \<notin> set held)
   \<and> set awarded \<subseteq> {''First Responder'', ''10 Assists'', ''25 Assists'', ''50 Assists'',
                        ''Quick Responder''}
   \<and> distinct awarded
   \<and> (\<forall>n \<in> set awarded. n \<notin> set held \<and> count_list twice n = 1)
   \<and> (\<forall>n \<in> set held. count_list twice n = count_list held n)
   \<and> (distinct held \<longrightarrow> distinct twice)
   \<and> v_badges (updateStats now rt ok r v) = v_badges v
   \<and> (distinct (map v_id (volunteers w)) \<longrightarrow>
         badgesKept w (fst (resolveAlert now u i rb w))
         \<and> badgesKept w (fst (submitFeedback now u i fb w))
         \<and> badgesKept w (fst (declineAlert now u i w)))
   \<and> volunteers (fst (acceptAlert now u i w)) = volunteers w
   \<and> volunteers (fst (cancelAlert now u i w)) = volunteers w
   \<and> volunteers (fst (updateAlertLocation now u i lat lon w)) = volunteers w
   \<and> volunteers (cr_world (createAlert e u cb w)) = volunteers w
   \<and> volunteers (fst (cleanupAlerts now uf df w)) = volunteers w"
proof -
  have aw: "awarded = map b_name (awards t1 v)"
    unfolding awarded_def checkBadges_snd ..
  have tw: "twice = map b_name (v_badges (fst (checkBadges t1 v)))"
    unfolding twice_def checkBadges_twice fst_conv ..
  have a: "checkBadges t2 (fst (checkBadges t1 v)) = (fst (checkBadges t1 v), [])"
    by (rule checkBadges_twice)
  have b: "v_badges (fst (checkBadges t1 v)) = v_badges v @ snd (checkBadges t1 v)"
    by (simp add: badges_after checkBadges_snd)
  note i = awards_iff[of t1 v, folded aw held_def]
  have sub: "set awarded \<subseteq> {''First Responder'', ''10 Assists'', ''25 Assists'', ''50 Assists'',
                        ''Quick Responder''}"
    unfolding aw by (rule awards_names_subset)
  have dis: "distinct awarded"
    unfolding aw by (rule awards_distinct)
  have c: "\<forall>n \<in> set awarded. n \<notin> set held \<and> count_list twice n = 1"
  proof
    fix n
    assume "n \<in> set awarded"
    then obtain b where b: "b \<in> set (awards t1 v)" "n = b_name b"
      unfolding aw by auto
    from b have "\<not> has_badge v n" by (intro awards_fresh[of n t1 v]) simp
    then have "n \<notin> set held" by (simp add: held_def has_badge_iff)
    moreover have "count_list twice n = 1"
      unfolding tw b(2) by (rule count_new_badge[OF b(1)])
    ultimately show "n \<notin> set held \<and> count_list twice n = 1" ..
  qed
  have d: "\<forall>n \<in> set held. count_list twice n = count_list held n"
    unfolding tw held_def using count_old_badge[of _ v t1] by blast
  have e: "distinct held \<longrightarrow> distinct twice"
    unfolding tw held_def using badges_distinct_after[of v t1] by blast
  have f: "v_badges (updateStats now rt ok r v) = v_badges v"
    by (rule updateStats_badges)
  have g: "distinct (map v_id (volunteers w)) \<longrightarrow>
         badgesKept w (fst (resolveAlert now u i rb w))
         \<and> badgesKept w (fst (submitFeedback now u i fb w))
         \<and> badgesKept w (fst (declineAlert now u i w))"
    using resolve_badgesKept feedback_badgesKept decline_badgesKept by blast
  from a b i sub dis c d e f g volunteers_untouched(1)[of now u i w]
    volunteers_untouched(2)[of now u i w]
    volunteers_untouched(3)[of now u i lat lon w] volunteers_untouched(4)[of e u cb w]
    volunteers_untouched(5)[of now uf df w]
  show ?thesis by (intro conjI)
qed

lemma vol_q_fields:
  "map b_name (v_badges vol_q) = [''First Responder'']"
  "avgResponseTime (v_stats vol_q) = Some 170"
  "totalResponses (v_stats vol_q) = 5"
  "successfulAssists (v_stats vol_q) = 5"
  by (simp_all add: vol_q_def vol_170_def vol_b_def)

theorem checkBadges_idempotent_monotone_witness:
  "''Quick Responder'' \<in> set (map b_name (snd (checkBadges 2000 vol_q)))
   \<and> ''10 Assists'' \<notin> set (map b_name (snd (checkBadges 2000 vol_q)))
   \<and> ''First Responder'' \<notin> set (map b_name (snd (checkBadges 2000 vol_q)))
   \<and> checkBadges 3000 (fst (checkBadges 2000 vol_q)) = (fst (checkBadges 2000 vol_q), [])
   \<and> count_list (map b_name (v_badges (fst (checkBadges 3000 (fst (checkBadges 2000 vol_q))))))
        ''Quick Responder'' = 1
   \<and> ''First Responder'' \<in> set (map b_name (v_badges vol_q))
   \<and> count_list (map b_name (v_badges (fst (checkBadges 3000 (fst (checkBadges 2000 vol_q))))))
        ''First Responder'' = 1
   \<and> distinct (map b_name (v_badges vol_q))
   \<and> distinct (map b_name (v_badges (fst (checkBadges 3000 (fst (checkBadges 2000 vol_q))))))
   \<and> distinct (map v_id (volunteers responding_world))
   \<and> badgesKept responding_world (fst (resolveAlert 80000 caller_a 7 rate5 responding_world))
   \<and> badgesKept responding_world (fst (submitFeedback 80000 owner 7 fb3 responding_world))
   \<and> badgesKept responding_world (fst (declineAlert 80000 caller_b 7 responding_world))"
proof -
  note T = checkBadges_idempotent_monotone[where ?t1.0 = 2000 and ?t2.0 = 3000 and v = vol_q
      and w = responding_world and now = 80000 and i = 7]
  note R2 = T[THEN conjunct2, THEN conjunct2]
  note R5 = R2[THEN conjunct2, THEN conjunct2, THEN conjunct2]
  note R9 = R5[THEN conjunct2, THEN conjunct2, THEN conjunct2, THEN conjunct2]
  note R13 = R9[THEN conjunct2, THEN conjunct2, THEN conjunct2, THEN conjunct2]
  note idem = T[THEN conjunct1]
  note fr_iff = R2[THEN conjunct1]
  note ten_iff = R2[THEN conjunct2, THEN conjunct1]
  note qr_iff = R5[THEN conjunct2, THEN conjunct1]
  note once = R9[THEN conjunct1]
  note old = R9[THEN conjunct2, THEN conjunct1]
  note dist = R9[THEN conjunct2, THEN conjunct2, THEN conjunct1]
  note ops = R13[THEN conjunct1]
  have qr: "''Quick Responder'' \<in> set (map b_name (snd (checkBadges 2000 vol_q)))"
    unfolding qr_iff vol_q_fields by simp
  have ten: "''10 Assists'' \<notin> set (map b_name (snd (checkBadges 2000 vol_q)))"
    unfolding ten_iff vol_q_fields by simp
  have fr: "''First Responder'' \<notin> set (map b_name (snd (checkBadges 2000 vol_q)))"
    unfolding fr_iff vol_q_fields by simp
  from once[rule_format, OF qr]
  have c: "count_list (map b_name (v_badges (fst (checkBadges 3000 (fst (checkBadges 2000 vol_q))))))
        ''Quick Responder'' = 1"
    by (rule conjunct2)
  have h: "''First Responder'' \<in> set (map b_name (v_badges vol_q))"
    unfolding vol_q_fields by simp
  have c': "count_list (map b_name (v_badges (fst (checkBadges 3000 (fst (checkBadges 2000 vol_q))))))
        ''First Responder'' = 1"
    unfolding old[rule_format, OF h] vol_q_fields by simp
  have d: "distinct (map b_name (v_badges vol_q))"
    unfolding vol_q_fields by simp
  from dist d have d': "distinct (map b_name (v_badges (fst (checkBadges 3000 (fst (checkBadges 2000 vol_q))))))"
    by (rule mp)
  have ids: "distinct (map v_id (volunteers responding_world))" by simp
  note k = ops[rule_format, OF ids]
  from qr ten fr idem c h c' d d' ids
    k[where u = caller_a and rb = rate5, THEN conjunct1]
    k[where u = owner and fb = fb3, THEN conjunct2, THEN conjunct1]
    k[where u = caller_b, THEN conjunct2, THEN conjunct2]
  show ?thesis by (intro conjI)
qed

end
